theory Spec2Isabelle
  imports Main "HOL-Library.AList" "HOL-Library.Sublist"
begin

section \<open>JavaScript values\<close>

text \<open>
  The server is TypeScript; its types are erased at run time, so tool arguments,
  upstream bodies and the navigation state are plain JavaScript values. Numbers are
  modelled as integers: every number this program reads is a position, a page size, a
  length or an HTTP status.
  The fields of \<open>JObj\<close> are the object's own properties in enumeration order
  (the order \<open>Object.values\<close> follows).
\<close>

datatype js_value =
    JUndefined
  | JNull
  | JBool bool
  | JNum int
  | JStr string
  | JArr "js_value list"
  | JObj "(string \<times> js_value) list"

text \<open>
  A thrown value: an \<open>Error\<close> instance (its constructor's name and its
  message), or any other value.
\<close>

datatype thrown =
    ErrorObject string string
  | NonError js_value

text \<open>Decimal rendering of a number, as a template literal renders an integer.\<close>

definition digit_char :: "nat \<Rightarrow> char" where
  "digit_char d = ''0123456789'' ! d"

function show_nat :: "nat \<Rightarrow> string" where
  "show_nat n = (if n < 10 then [digit_char n] else show_nat (n div 10) @ [digit_char (n mod 10)])"
  by pat_completeness auto
termination
  by (relation "measure (\<lambda>n. n)") auto

declare show_nat.simps [simp del]

definition show_int :: "int \<Rightarrow> string" where
  "show_int i = (if i < 0 then ''-'' @ show_nat (nat (- i)) else show_nat (nat i))"

text \<open>A text between single quotes, as \<open>'${v}'\<close> in a template literal.\<close>

definition quoted :: "string \<Rightarrow> string" where
  "quoted v = [CHR 0x27] @ v @ [CHR 0x27]"

text \<open>\<open>Array.prototype.join\<close> on strings.\<close>

fun join :: "string \<Rightarrow> string list \<Rightarrow> string" where
  "join sep [] = []"
| "join sep [x] = x"
| "join sep (x # y # ys) = x @ sep @ join sep (y # ys)"

text \<open>
  \<open>ToString\<close>, which a template literal \<open>${v}\<close> and \<open>String(v)\<close>
  apply: an array joins its elements with commas (\<open>null\<close> and
  \<open>undefined\<close> elements as the empty string), a plain object is
  \<open>[object Object]\<close>.
\<close>

fun to_string :: "js_value \<Rightarrow> string" where
  "to_string JUndefined = ''undefined''"
| "to_string JNull = ''null''"
| "to_string (JBool b) = (if b then ''true'' else ''false'')"
| "to_string (JNum n) = show_int n"
| "to_string (JStr s) = s"
| "to_string (JArr xs) =
     join '','' (map (\<lambda>v. if v = JUndefined \<or> v = JNull then [] else to_string v) xs)"
| "to_string (JObj fs) = ''[object Object]''"

text \<open>Truthiness, as \<open>if (v)\<close>, \<open>!v\<close> and \<open>a && b\<close> test it.\<close>

fun truthy :: "js_value \<Rightarrow> bool" where
  "truthy JUndefined = False"
| "truthy JNull = False"
| "truthy (JBool b) = b"
| "truthy (JNum n) = (n \<noteq> 0)"
| "truthy (JStr s) = (s \<noteq> [])"
| "truthy (JArr xs) = True"
| "truthy (JObj fs) = True"

text \<open>
  Reading a property \<open>v.key\<close>, for the property names this program reads (none of
  them is a built-in property of a string, an array, a number or a boolean, or of
  \<open>Object.prototype\<close>): \<open>undefined\<close> where the value has no such property, a
  \<open>TypeError\<close> on \<open>null\<close> and \<open>undefined\<close>.
\<close>

fun get_prop :: "js_value \<Rightarrow> string \<Rightarrow> thrown + js_value" where
  "get_prop JUndefined key =
     Inl (ErrorObject ''TypeError'' (''Cannot read properties of undefined (reading '' @ quoted key @ '')''))"
| "get_prop JNull key =
     Inl (ErrorObject ''TypeError'' (''Cannot read properties of null (reading '' @ quoted key @ '')''))"
| "get_prop (JObj fs) key = Inr (case map_of fs key of None \<Rightarrow> JUndefined | Some v \<Rightarrow> v)"
| "get_prop v key = Inr JUndefined"

text \<open>
  Destructuring a tool's argument object, \<open>const { key } = args\<close>, where
  \<open>args\<close> is an object.
\<close>

definition arg :: "js_value \<Rightarrow> string \<Rightarrow> js_value" where
  "arg args key = (case get_prop args key of Inl e \<Rightarrow> JUndefined | Inr v \<Rightarrow> v)"

text \<open>A destructuring default, \<open>const { key = d } = args\<close>: \<open>d\<close> replaces \<open>undefined\<close> only.\<close>

definition arg_default :: "js_value \<Rightarrow> string \<Rightarrow> js_value \<Rightarrow> js_value" where
  "arg_default args key d = (if arg args key = JUndefined then d else arg args key)"

text \<open>
  \<open>Object.values(v)\<close> of a truthy value: an object's property values, an array's
  elements, a string's characters, nothing for a number or a boolean. (It throws on
  \<open>null\<close> and \<open>undefined\<close>; the one call of this program is guarded by a
  truthiness test, so these are never passed.)
\<close>

fun object_values :: "js_value \<Rightarrow> js_value list" where
  "object_values (JObj fs) = map snd fs"
| "object_values (JArr xs) = xs"
| "object_values (JStr s) = map (\<lambda>c. JStr [c]) s"
| "object_values v = []"

fun is_array :: "js_value \<Rightarrow> bool" where
  "is_array (JArr xs) = True"
| "is_array v = False"

text \<open>An object spread \<open>{...base, ...extra}\<close>: a repeated key keeps its place and takes the later value.\<close>

definition spread :: "(string \<times> js_value) list \<Rightarrow> (string \<times> js_value) list \<Rightarrow> (string \<times> js_value) list" where
  "spread base extra = fold (\<lambda>(k, v). AList.update k v) extra base"

section \<open>The upstream client (utils/client.ts)\<close>

definition QBO_API_BASE :: string where
  "QBO_API_BASE = ''https://quickbooks.api.intuit.com/v3/company''"

definition MINOR_VERSION :: string where
  "MINOR_VERSION = ''73''"

definition MAX_PAGE_SIZE :: int where
  "MAX_PAGE_SIZE = 1000"

record QboClientConfig =
  accessToken :: string
  realmId :: string

record QboClient =
  config :: QboClientConfig
  baseUrl :: string

definition new_QboClient :: "QboClientConfig \<Rightarrow> QboClient" where
  "new_QboClient cfg = \<lparr>config = cfg, baseUrl = QBO_API_BASE @ ''/'' @ realmId cfg\<rparr>"

text \<open>
  What \<open>fetch(url, options)\<close> is called with. The URL is kept in two parts: the
  address before the \<open>?\<close> and the entries of the \<open>URLSearchParams\<close> (whose
  \<open>toString\<close> percent-encodes them); the body is the value handed to
  \<open>JSON.stringify\<close>, absent when no body is sent.
\<close>

record http_request =
  req_method :: string
  req_url :: string
  req_search :: "(string \<times> string) list"
  req_headers :: "(string \<times> string) list"
  req_body :: "js_value option"

text \<open>
  What the upstream answers: the status, the body as \<open>response.text()\<close> reads it,
  and what \<open>response.json()\<close> yields (the parsed value, or the error it rejects
  with on a body that is not JSON).
\<close>

record http_response =
  resp_status :: nat
  resp_text :: string
  resp_json :: "thrown + js_value"

datatype fetch_result =
    Rejected thrown
  | Resolved http_response

text \<open>
  The outbound transport is an external collaborator: a function from the request and
  the state of the outside world to the outcome and the new state of the world.
\<close>

type_synonym 'w fetch = "http_request \<Rightarrow> 'w \<Rightarrow> fetch_result \<times> 'w"

text \<open>\<open>response.ok\<close>: the status is in the range 200 to 299.\<close>

definition resp_ok :: "http_response \<Rightarrow> bool" where
  "resp_ok r = (200 \<le> resp_status r \<and> resp_status r \<le> 299)"

text \<open>The request \<open>QboClient.request\<close> builds before it calls \<open>fetch\<close>.\<close>

definition build_request ::
  "QboClient \<Rightarrow> string \<Rightarrow> string \<Rightarrow> (string \<times> js_value) list option \<Rightarrow> js_value \<Rightarrow> http_request" where
  "build_request c method path params body =
     \<lparr>req_method = method,
      req_url = baseUrl c @ ''/'' @ path,
      req_search = map (\<lambda>(k, v). (k, to_string v))
        (spread [(''minorversion'', JStr MINOR_VERSION)] (case params of None \<Rightarrow> [] | Some ps \<Rightarrow> ps)),
      req_headers =
        [(''Authorization'', ''Bearer '' @ accessToken (config c)),
         (''Content-Type'', ''application/json''),
         (''Accept'', ''application/json'')],
      req_body = (if body \<noteq> JUndefined then Some body else None)\<rparr>"

text \<open>\<open>QboClient.request\<close>: one \<open>fetch\<close>, then the mapping of its outcome.\<close>

definition request ::
  "'w fetch \<Rightarrow> QboClient \<Rightarrow> string \<Rightarrow> string \<Rightarrow> (string \<times> js_value) list option \<Rightarrow> js_value \<Rightarrow> 'w
   \<Rightarrow> (thrown + js_value) \<times> 'w" where
  "request fch c method path params body w =
     (case fch (build_request c method path params body) w of
        (Rejected e, w') \<Rightarrow> (Inl e, w')
      | (Resolved response, w') \<Rightarrow>
          if \<not> resp_ok response then
            (Inl (ErrorObject ''Error''
               (''QBO API error '' @ method @ '' /'' @ path @ '' ('' @ show_nat (resp_status response)
                  @ ''): '' @ resp_text response)), w')
          else if resp_status response = 204 then (Inr JNull, w')
          else (resp_json response, w'))"

definition get :: "'w fetch \<Rightarrow> QboClient \<Rightarrow> string \<Rightarrow> (string \<times> js_value) list option \<Rightarrow> 'w \<Rightarrow> (thrown + js_value) \<times> 'w" where
  "get fch c path params w = request fch c ''GET'' path params JUndefined w"

definition post ::
  "'w fetch \<Rightarrow> QboClient \<Rightarrow> string \<Rightarrow> js_value \<Rightarrow> (string \<times> js_value) list option \<Rightarrow> 'w \<Rightarrow> (thrown + js_value) \<times> 'w" where
  "post fch c path body params w = request fch c ''POST'' path params body w"

definition query :: "'w fetch \<Rightarrow> QboClient \<Rightarrow> string \<Rightarrow> 'w \<Rightarrow> (thrown + js_value) \<times> 'w" where
  "query fch c sql w = request fch c ''POST'' ''query'' None (JStr sql) w"

text \<open>
  The SQL of one round of \<open>getPaginated\<close>:
  \<open>${baseSql} STARTPOSITION ${startPosition} MAXRESULTS ${maxResults}\<close>.
\<close>

definition paginatedSql :: "string \<Rightarrow> int \<Rightarrow> int \<Rightarrow> string" where
  "paginatedSql baseSql startPosition maxResults =
     baseSql @ '' STARTPOSITION '' @ show_int startPosition @ '' MAXRESULTS '' @ show_int maxResults"

text \<open>
  The \<open>while (hasMore)\<close> loop of \<open>getPaginated\<close>, one round per unit of fuel.
  The loop has no bound of its own (an upstream that always answers a full page keeps
  it running), so the result is \<open>None\<close> when the fuel runs out with the loop still
  going; the state of the world after the rounds made so far is returned in every case.
\<close>

fun paginate ::
  "nat \<Rightarrow> 'w fetch \<Rightarrow> QboClient \<Rightarrow> string \<Rightarrow> int \<Rightarrow> int \<Rightarrow> js_value list \<Rightarrow> 'w
   \<Rightarrow> (thrown + js_value list) option \<times> 'w" where
  "paginate 0 fch c baseSql maxResults startPosition allItems w = (None, w)"
| "paginate (Suc fuel) fch c baseSql maxResults startPosition allItems w =
     (case query fch c (paginatedSql baseSql startPosition maxResults) w of
        (Inl e, w') \<Rightarrow> (Some (Inl e), w')
      | (Inr response, w') \<Rightarrow>
          (case get_prop response ''QueryResponse'' of
             Inl e \<Rightarrow> (Some (Inl e), w')
           | Inr qr \<Rightarrow>
               if truthy qr then
                 (case find is_array (object_values qr) of
                    Some (JArr entities) \<Rightarrow>
                      if length entities > 0 then
                        if int (length entities) < maxResults then (Some (Inr (allItems @ entities)), w')
                        else paginate fuel fch c baseSql maxResults (startPosition + maxResults)
                               (allItems @ entities) w'
                      else (Some (Inr allItems), w')
                  | _ \<Rightarrow> (Some (Inr allItems), w'))
               else (Some (Inr allItems), w')))"

text \<open>
  \<open>getPaginated(baseSql, maxResults = MAX_PAGE_SIZE)\<close>: the default replaces an
  argument that is not given; \<open>startPosition\<close> starts at 1 and \<open>allItems\<close> empty.
\<close>

definition default_maxResults :: "int option \<Rightarrow> int" where
  "default_maxResults maxResults = (case maxResults of None \<Rightarrow> MAX_PAGE_SIZE | Some m \<Rightarrow> m)"

definition getPaginated ::
  "nat \<Rightarrow> 'w fetch \<Rightarrow> QboClient \<Rightarrow> string \<Rightarrow> int option \<Rightarrow> 'w \<Rightarrow> (thrown + js_value list) option \<times> 'w" where
  "getPaginated fuel fch c baseSql maxResults w =
     paginate fuel fch c baseSql (default_maxResults maxResults) 1 [] w"

subsection \<open>The client singleton\<close>

text \<open>
  The process-wide mutable state: the navigation state of index.ts
  (\<open>state.currentDomain\<close>, \<open>null\<close> at the root), the singleton \<open>_client\<close> of
  utils/client.ts (\<open>null\<close> is \<open>None\<close>) and the two environment variables the
  client is built from (\<open>None\<close> when unset).
\<close>

record server_state =
  currentDomain :: js_value
  client :: "QboClient option"
  env_QBO_ACCESS_TOKEN :: "string option"
  env_QBO_REALM_ID :: "string option"

definition initial_state :: "string option \<Rightarrow> string option \<Rightarrow> server_state" where
  "initial_state token realm =
     \<lparr>currentDomain = JNull, client = None, env_QBO_ACCESS_TOKEN = token, env_QBO_REALM_ID = realm\<rparr>"

text \<open>\<open>!v\<close> for a value that is a string or \<open>undefined\<close>: unset or empty.\<close>

fun falsy_string :: "string option \<Rightarrow> bool" where
  "falsy_string None = True"
| "falsy_string (Some v) = (v = [])"

definition getClient :: "server_state \<Rightarrow> (thrown + QboClient) \<times> server_state" where
  "getClient s =
     (case client s of
        Some c \<Rightarrow> (Inr c, s)
      | None \<Rightarrow>
          if falsy_string (env_QBO_ACCESS_TOKEN s) \<or> falsy_string (env_QBO_REALM_ID s) then
            (Inl (ErrorObject ''Error''
               (''QBO_ACCESS_TOKEN and QBO_REALM_ID environment variables are required. '' @
                ''Provide a pre-authenticated OAuth2 access token and company realm ID.'')), s)
          else
            (let c = new_QboClient
                       \<lparr>accessToken = (case env_QBO_ACCESS_TOKEN s of Some v \<Rightarrow> v | None \<Rightarrow> []),
                        realmId = (case env_QBO_REALM_ID s of Some v \<Rightarrow> v | None \<Rightarrow> [])\<rparr>
             in (Inr c, s\<lparr>client := Some c\<rparr>)))"

definition resetClient :: "server_state \<Rightarrow> server_state" where
  "resetClient s = s\<lparr>client := None\<rparr>"

section \<open>Operation descriptors\<close>

record Tool =
  tool_name :: string
  description :: string
  inputSchema :: js_value

text \<open>Shorthands for the two shapes nearly every schema entry has.\<close>

definition sprop :: "string \<Rightarrow> string \<Rightarrow> js_value" where
  "sprop ty d = JObj [(''type'', JStr ty), (''description'', JStr d)]"

definition prop_enum :: "string \<Rightarrow> string list \<Rightarrow> string \<Rightarrow> js_value" where
  "prop_enum ty vs d = JObj [(''type'', JStr ty), (''enum'', JArr (map JStr vs)), (''description'', JStr d)]"

definition prop_array :: "string \<Rightarrow> js_value" where
  "prop_array d =
     JObj [(''type'', JStr ''array''), (''description'', JStr d), (''items'', JObj [(''type'', JStr ''object'')])]"

definition schema :: "(string \<times> js_value) list \<Rightarrow> js_value" where
  "schema ps = JObj [(''type'', JStr ''object''), (''properties'', JObj ps)]"

definition schema_required :: "(string \<times> js_value) list \<Rightarrow> string list \<Rightarrow> js_value" where
  "schema_required ps rs =
     JObj [(''type'', JStr ''object''), (''properties'', JObj ps), (''required'', JArr (map JStr rs))]"

definition startPosition_prop :: "string \<times> js_value" where
  "startPosition_prop =
     (''startPosition'', sprop ''number'' ''Starting position for pagination (1-based, default: 1)'')"

definition maxResults_prop :: "string \<times> js_value" where
  "maxResults_prop =
     (''maxResults'', sprop ''number'' ''Maximum number of results to return (default: 100, max: 1000)'')"

subsection \<open>domains/customers.ts\<close>

definition customerTools :: "Tool list" where
  \<open>customerTools =
   [\<lparr>tool_name = ''qbo_customers_list'',
     description = ''List customers in QuickBooks Online with pagination. Returns customer details including name, email, and balance.'',
     inputSchema = schema [startPosition_prop, maxResults_prop]\<rparr>,
    \<lparr>tool_name = ''qbo_customers_get'',
     description = ''Get detailed information about a specific customer by their ID. Returns full customer profile including contact info, billing address, and balance.'',
     inputSchema = schema_required [(''customerId'', sprop ''string'' ''The unique customer ID'')] [''customerId'']\<rparr>,
    \<lparr>tool_name = ''qbo_customers_create'',
     description = ''Create a new customer in QuickBooks Online. DisplayName is required.'',
     inputSchema = schema_required
       [(''DisplayName'', sprop ''string'' ''Display name for the customer (required, must be unique)''),
        (''GivenName'', sprop ''string'' ''First name of the customer''),
        (''FamilyName'', sprop ''string'' ''Last name of the customer''),
        (''CompanyName'', sprop ''string'' ''Company name''),
        (''PrimaryEmailAddr'', sprop ''object'' ''Primary email address object, e.g. {"Address": "user@example.com"}''),
        (''PrimaryPhone'', sprop ''object'' ''Primary phone object, e.g. {"FreeFormNumber": "555-1234"}''),
        (''BillAddr'', sprop ''object'' ''Billing address object with Line1, City, CountrySubDivisionCode, PostalCode'')]
       [''DisplayName'']\<rparr>,
    \<lparr>tool_name = ''qbo_customers_search'',
     description = ''Search for customers by display name. Uses a LIKE query to find partial matches.'',
     inputSchema = schema_required
       [(''term'', sprop ''string'' ''Search term to match against customer DisplayName''),
        startPosition_prop, maxResults_prop]
       [''term'']\<rparr>]\<close>

subsection \<open>domains/invoices.ts\<close>

definition invoiceTools :: "Tool list" where
  \<open>invoiceTools =
   [\<lparr>tool_name = ''qbo_invoices_list'',
     description = ''List invoices in QuickBooks Online with pagination and optional filters for status and date range.'',
     inputSchema = schema
       [startPosition_prop, maxResults_prop,
        (''status'', prop_enum ''string'' [''Paid'', ''Unpaid'', ''Overdue''] ''Filter invoices by balance status''),
        (''startDate'', sprop ''string'' ''Filter invoices on or after this date (YYYY-MM-DD format)''),
        (''endDate'', sprop ''string'' ''Filter invoices on or before this date (YYYY-MM-DD format)'')]\<rparr>,
    \<lparr>tool_name = ''qbo_invoices_get'',
     description = ''Get detailed information about a specific invoice by its ID. Returns full invoice including line items, customer ref, and balance.'',
     inputSchema = schema_required [(''invoiceId'', sprop ''string'' ''The unique invoice ID'')] [''invoiceId'']\<rparr>,
    \<lparr>tool_name = ''qbo_invoices_create'',
     description = ''Create a new invoice in QuickBooks Online. Requires a customer reference and at least one line item.'',
     inputSchema = schema_required
       [(''CustomerRef'', sprop ''object'' ''Customer reference object, e.g. {"value": "123"} where value is the customer ID''),
        (''Line'', prop_array ''Array of line items. Each line should have Amount, DetailType ("SalesItemLineDetail"), and SalesItemLineDetail with ItemRef.''),
        (''DueDate'', sprop ''string'' ''Due date for the invoice (YYYY-MM-DD format)''),
        (''TxnDate'', sprop ''string'' ''Transaction date (YYYY-MM-DD format)''),
        (''BillEmail'', sprop ''object'' ''Email address to send the invoice to, e.g. {"Address": "customer@example.com"}''),
        (''PrivateNote'', sprop ''string'' ''Private note (not visible to customer)''),
        (''CustomerMemo'', sprop ''object'' ''Memo visible to customer, e.g. {"value": "Thank you for your business"}'')]
       [''CustomerRef'', ''Line'']\<rparr>,
    \<lparr>tool_name = ''qbo_invoices_send'',
     description = ''Send an invoice by email. The invoice must already exist in QuickBooks Online.'',
     inputSchema = schema_required
       [(''invoiceId'', sprop ''string'' ''The unique invoice ID to send''),
        (''email'', sprop ''string'' ''Override email address to send to (optional, uses invoice BillEmail if not specified)'')]
       [''invoiceId'']\<rparr>]\<close>

subsection \<open>domains/expenses.ts\<close>

definition expenseTools :: "Tool list" where
  \<open>expenseTools =
   [\<lparr>tool_name = ''qbo_expenses_list_purchases'',
     description = ''List purchases (expenses/checks/credit card charges) in QuickBooks Online with pagination.'',
     inputSchema = schema
       [startPosition_prop, maxResults_prop,
        (''startDate'', sprop ''string'' ''Filter purchases on or after this date (YYYY-MM-DD format)''),
        (''endDate'', sprop ''string'' ''Filter purchases on or before this date (YYYY-MM-DD format)'')]\<rparr>,
    \<lparr>tool_name = ''qbo_expenses_list_bills'',
     description = ''List bills (accounts payable) in QuickBooks Online with pagination.'',
     inputSchema = schema
       [startPosition_prop, maxResults_prop,
        (''startDate'', sprop ''string'' ''Filter bills on or after this date (YYYY-MM-DD format)''),
        (''endDate'', sprop ''string'' ''Filter bills on or before this date (YYYY-MM-DD format)'')]\<rparr>,
    \<lparr>tool_name = ''qbo_expenses_get_purchase'',
     description = ''Get detailed information about a specific purchase by its ID. Returns full purchase details including line items and vendor info.'',
     inputSchema = schema_required [(''purchaseId'', sprop ''string'' ''The unique purchase ID'')] [''purchaseId'']\<rparr>,
    \<lparr>tool_name = ''qbo_expenses_get_bill'',
     description = ''Get detailed information about a specific bill by its ID. Returns full bill details including line items and vendor info.'',
     inputSchema = schema_required [(''billId'', sprop ''string'' ''The unique bill ID'')] [''billId'']\<rparr>]\<close>

subsection \<open>domains/payments.ts\<close>

definition paymentTools :: "Tool list" where
  \<open>paymentTools =
   [\<lparr>tool_name = ''qbo_payments_list'',
     description = ''List payments in QuickBooks Online with pagination. Returns payment details including customer, amount, and linked transactions.'',
     inputSchema = schema
       [startPosition_prop, maxResults_prop,
        (''startDate'', sprop ''string'' ''Filter payments on or after this date (YYYY-MM-DD format)''),
        (''endDate'', sprop ''string'' ''Filter payments on or before this date (YYYY-MM-DD format)'')]\<rparr>,
    \<lparr>tool_name = ''qbo_payments_get'',
     description = ''Get detailed information about a specific payment by its ID. Returns full payment details including linked invoices.'',
     inputSchema = schema_required [(''paymentId'', sprop ''string'' ''The unique payment ID'')] [''paymentId'']\<rparr>,
    \<lparr>tool_name = ''qbo_payments_create'',
     description = ''Create a new payment in QuickBooks Online. Requires a customer reference and total amount. Optionally link to invoices.'',
     inputSchema = schema_required
       [(''CustomerRef'', sprop ''object'' ''Customer reference object, e.g. {"value": "123"} where value is the customer ID''),
        (''TotalAmt'', sprop ''number'' ''Total payment amount''),
        (''Line'', prop_array ''Array of line items linking payment to invoices. Each line should have Amount and LinkedTxn array with TxnId and TxnType ("Invoice").''),
        (''TxnDate'', sprop ''string'' ''Payment date (YYYY-MM-DD format)''),
        (''PaymentMethodRef'', sprop ''object'' ''Payment method reference, e.g. {"value": "1"} for check, {"value": "2"} for cash''),
        (''DepositToAccountRef'', sprop ''object'' ''Account to deposit payment to, e.g. {"value": "35"} for Undeposited Funds''),
        (''PrivateNote'', sprop ''string'' ''Private memo for the payment'')]
       [''CustomerRef'', ''TotalAmt'']\<rparr>]\<close>

subsection \<open>domains/reports.ts\<close>

definition report_period_props :: "(string \<times> js_value) list" where
  "report_period_props =
     [(''start_date'', sprop ''string'' ''Start date for the report period (YYYY-MM-DD format)''),
      (''end_date'', sprop ''string'' ''End date for the report period (YYYY-MM-DD format)'')]"

definition accounting_method_prop :: "string \<times> js_value" where
  "accounting_method_prop =
     (''accounting_method'', prop_enum ''string'' [''Cash'', ''Accrual''] ''Accounting method (default: Accrual)'')"

definition report_date_prop :: "string \<times> js_value" where
  "report_date_prop =
     (''report_date'', sprop ''string'' ''Report as-of date (YYYY-MM-DD format, default: today)'')"

definition reportTools :: "Tool list" where
  "reportTools =
   [\<lparr>tool_name = ''qbo_reports_profit_and_loss'',
     description = ''Get a Profit and Loss (Income Statement) report for a given date range. Shows revenue, expenses, and net income.'',
     inputSchema = schema_required (report_period_props @ [accounting_method_prop]) [''start_date'', ''end_date'']\<rparr>,
    \<lparr>tool_name = ''qbo_reports_balance_sheet'',
     description = ''Get a Balance Sheet report as of a given date range. Shows assets, liabilities, and equity.'',
     inputSchema = schema_required (report_period_props @ [accounting_method_prop]) [''start_date'', ''end_date'']\<rparr>,
    \<lparr>tool_name = ''qbo_reports_aged_receivables'',
     description = ''Get an Aged Receivables (A/R Aging Summary) report. Shows outstanding customer balances grouped by age.'',
     inputSchema = schema [report_date_prop]\<rparr>,
    \<lparr>tool_name = ''qbo_reports_aged_payables'',
     description = ''Get an Aged Payables (A/P Aging Summary) report. Shows outstanding vendor balances grouped by age.'',
     inputSchema = schema [report_date_prop]\<rparr>,
    \<lparr>tool_name = ''qbo_reports_customer_sales'',
     description = ''Get a Customer Sales report for a given date range. Shows sales totals broken down by customer.'',
     inputSchema = schema_required report_period_props [''start_date'', ''end_date'']\<rparr>]"

section \<open>Domain handlers\<close>

text \<open>
  What a handler needs from outside the program: the outbound \<open>fetch\<close>,
  \<open>JSON.stringify(v, null, 2)\<close>, and the clock's date
  \<open>new Date().toISOString().split("T")[0]\<close>.
\<close>

record 'w externals =
  ext_fetch :: "'w fetch"
  ext_stringify :: "js_value \<Rightarrow> string"
  ext_today :: "'w \<Rightarrow> string"

record text_content =
  content_type :: string
  content_text :: string

text \<open>A call's result; \<open>isError\<close> is \<open>None\<close> where the object has no such field.\<close>

record tool_result =
  content :: "text_content list"
  isError :: "bool option"

definition text_result :: "string \<Rightarrow> tool_result" where
  "text_result t = \<lparr>content = [\<lparr>content_type = ''text'', content_text = t\<rparr>], isError = None\<rparr>"

definition failed_result :: "string \<Rightarrow> tool_result" where
  "failed_result t = \<lparr>content = [\<lparr>content_type = ''text'', content_text = t\<rparr>], isError = Some True\<rparr>"

text \<open>
  The end of every handler branch: the awaited upstream call throws, or its value is
  serialised into the result.
\<close>

definition respond ::
  "'w externals \<Rightarrow> server_state \<Rightarrow> (thrown + js_value) \<times> 'w \<Rightarrow> (thrown + tool_result) \<times> server_state \<times> 'w" where
  "respond ext s r =
     (case r of
        (Inl e, w') \<Rightarrow> (Inl e, s, w')
      | (Inr v, w') \<Rightarrow> (Inr (text_result (ext_stringify ext v)), s, w'))"

text \<open>\<open>if (v) body.key = v\<close>, for each optional field of a body or of the parameters.\<close>

definition optional_field :: "js_value \<Rightarrow> string \<Rightarrow> (string \<times> js_value) list" where
  "optional_field args key = (if truthy (arg args key) then [(key, arg args key)] else [])"

text \<open>The two date conditions the list operations share.\<close>

definition date_conditions :: "js_value \<Rightarrow> string list" where
  "date_conditions args =
     (if truthy (arg args ''startDate'') then [''TxnDate >= '' @ quoted (to_string (arg args ''startDate''))] else []) @
     (if truthy (arg args ''endDate'') then [''TxnDate <= '' @ quoted (to_string (arg args ''endDate''))] else [])"

text \<open>
  The SQL of a list operation: the entity, the conditions joined with \<open>AND\<close> when
  there are any, and the page clause from the arguments (defaults 1 and 100).
\<close>

definition list_sql :: "string \<Rightarrow> string list \<Rightarrow> js_value \<Rightarrow> string" where
  "list_sql entity conditions args =
     ''SELECT * FROM '' @ entity @
     (if length conditions > 0 then '' WHERE '' @ join '' AND '' conditions else []) @
     '' STARTPOSITION '' @ to_string (arg_default args ''startPosition'' (JNum 1)) @
     '' MAXRESULTS '' @ to_string (arg_default args ''maxResults'' (JNum 100))"

definition handleCustomerTool ::
  "'w externals \<Rightarrow> string \<Rightarrow> js_value \<Rightarrow> server_state \<times> 'w \<Rightarrow> (thrown + tool_result) \<times> server_state \<times> 'w" where
  "handleCustomerTool ext name args sw =
     (case sw of (s0, w) \<Rightarrow>
      (case getClient s0 of
        (Inl e, s) \<Rightarrow> (Inl e, s, w)
      | (Inr c, s) \<Rightarrow>
          if name = ''qbo_customers_list'' then
            respond ext s (query (ext_fetch ext) c (list_sql ''Customer'' [] args) w)
          else if name = ''qbo_customers_get'' then
            respond ext s (get (ext_fetch ext) c (''customer/'' @ to_string (arg args ''customerId'')) None w)
          else if name = ''qbo_customers_create'' then
            respond ext s (post (ext_fetch ext) c ''customer''
              (JObj ([(''DisplayName'', arg args ''DisplayName'')] @
                     optional_field args ''GivenName'' @ optional_field args ''FamilyName'' @
                     optional_field args ''CompanyName'' @ optional_field args ''PrimaryEmailAddr'' @
                     optional_field args ''PrimaryPhone'' @ optional_field args ''BillAddr''))
              None w)
          else if name = ''qbo_customers_search'' then
            respond ext s (query (ext_fetch ext) c
              (''SELECT * FROM Customer WHERE DisplayName LIKE '' @
               quoted (''%'' @ to_string (arg args ''term'') @ ''%'') @
               '' STARTPOSITION '' @ to_string (arg_default args ''startPosition'' (JNum 1)) @
               '' MAXRESULTS '' @ to_string (arg_default args ''maxResults'' (JNum 100))) w)
          else (Inr (failed_result (''Unknown customer tool: '' @ name)), s, w)))"

text \<open>The conditions of \<open>qbo_invoices_list\<close>: the status filter first, then the dates.\<close>

definition invoice_list_conditions :: "string \<Rightarrow> js_value \<Rightarrow> string list" where
  "invoice_list_conditions today args =
     (if arg args ''status'' = JStr ''Paid'' then [''Balance = '' @ quoted ''0'']
      else if arg args ''status'' = JStr ''Unpaid'' then [''Balance > '' @ quoted ''0'']
      else if arg args ''status'' = JStr ''Overdue'' then
        [''Balance > '' @ quoted ''0'' @ '' AND DueDate < '' @ quoted today]
      else []) @
     date_conditions args"

definition handleInvoiceTool ::
  "'w externals \<Rightarrow> string \<Rightarrow> js_value \<Rightarrow> server_state \<times> 'w \<Rightarrow> (thrown + tool_result) \<times> server_state \<times> 'w" where
  "handleInvoiceTool ext name args sw =
     (case sw of (s0, w) \<Rightarrow>
      (case getClient s0 of
        (Inl e, s) \<Rightarrow> (Inl e, s, w)
      | (Inr c, s) \<Rightarrow>
          if name = ''qbo_invoices_list'' then
            respond ext s (query (ext_fetch ext) c
              (list_sql ''Invoice'' (invoice_list_conditions (ext_today ext w) args) args) w)
          else if name = ''qbo_invoices_get'' then
            respond ext s (get (ext_fetch ext) c (''invoice/'' @ to_string (arg args ''invoiceId'')) None w)
          else if name = ''qbo_invoices_create'' then
            respond ext s (post (ext_fetch ext) c ''invoice''
              (JObj ([(''CustomerRef'', arg args ''CustomerRef''), (''Line'', arg args ''Line'')] @
                     optional_field args ''DueDate'' @ optional_field args ''TxnDate'' @
                     optional_field args ''BillEmail'' @ optional_field args ''PrivateNote'' @
                     optional_field args ''CustomerMemo''))
              None w)
          else if name = ''qbo_invoices_send'' then
            respond ext s (post (ext_fetch ext) c
              (''invoice/'' @ to_string (arg args ''invoiceId'') @ ''/send'') JUndefined
              (Some (if truthy (arg args ''email'') then [(''sendTo'', arg args ''email'')] else [])) w)
          else (Inr (failed_result (''Unknown invoice tool: '' @ name)), s, w)))"

definition handleExpenseTool ::
  "'w externals \<Rightarrow> string \<Rightarrow> js_value \<Rightarrow> server_state \<times> 'w \<Rightarrow> (thrown + tool_result) \<times> server_state \<times> 'w" where
  "handleExpenseTool ext name args sw =
     (case sw of (s0, w) \<Rightarrow>
      (case getClient s0 of
        (Inl e, s) \<Rightarrow> (Inl e, s, w)
      | (Inr c, s) \<Rightarrow>
          if name = ''qbo_expenses_list_purchases'' then
            respond ext s (query (ext_fetch ext) c (list_sql ''Purchase'' (date_conditions args) args) w)
          else if name = ''qbo_expenses_list_bills'' then
            respond ext s (query (ext_fetch ext) c (list_sql ''Bill'' (date_conditions args) args) w)
          else if name = ''qbo_expenses_get_purchase'' then
            respond ext s (get (ext_fetch ext) c (''purchase/'' @ to_string (arg args ''purchaseId'')) None w)
          else if name = ''qbo_expenses_get_bill'' then
            respond ext s (get (ext_fetch ext) c (''bill/'' @ to_string (arg args ''billId'')) None w)
          else (Inr (failed_result (''Unknown expense tool: '' @ name)), s, w)))"

definition handlePaymentTool ::
  "'w externals \<Rightarrow> string \<Rightarrow> js_value \<Rightarrow> server_state \<times> 'w \<Rightarrow> (thrown + tool_result) \<times> server_state \<times> 'w" where
  "handlePaymentTool ext name args sw =
     (case sw of (s0, w) \<Rightarrow>
      (case getClient s0 of
        (Inl e, s) \<Rightarrow> (Inl e, s, w)
      | (Inr c, s) \<Rightarrow>
          if name = ''qbo_payments_list'' then
            respond ext s (query (ext_fetch ext) c (list_sql ''Payment'' (date_conditions args) args) w)
          else if name = ''qbo_payments_get'' then
            respond ext s (get (ext_fetch ext) c (''payment/'' @ to_string (arg args ''paymentId'')) None w)
          else if name = ''qbo_payments_create'' then
            respond ext s (post (ext_fetch ext) c ''payment''
              (JObj ([(''CustomerRef'', arg args ''CustomerRef''), (''TotalAmt'', arg args ''TotalAmt'')] @
                     optional_field args ''Line'' @ optional_field args ''TxnDate'' @
                     optional_field args ''PaymentMethodRef'' @ optional_field args ''DepositToAccountRef'' @
                     optional_field args ''PrivateNote''))
              None w)
          else (Inr (failed_result (''Unknown payment tool: '' @ name)), s, w)))"

definition handleReportTool ::
  "'w externals \<Rightarrow> string \<Rightarrow> js_value \<Rightarrow> server_state \<times> 'w \<Rightarrow> (thrown + tool_result) \<times> server_state \<times> 'w" where
  "handleReportTool ext name args sw =
     (case sw of (s0, w) \<Rightarrow>
      (case getClient s0 of
        (Inl e, s) \<Rightarrow> (Inl e, s, w)
      | (Inr c, s) \<Rightarrow>
          if name = ''qbo_reports_profit_and_loss'' then
            respond ext s (get (ext_fetch ext) c ''reports/ProfitAndLoss''
              (Some ([(''start_date'', arg args ''start_date''), (''end_date'', arg args ''end_date'')] @
                     optional_field args ''accounting_method'')) w)
          else if name = ''qbo_reports_balance_sheet'' then
            respond ext s (get (ext_fetch ext) c ''reports/BalanceSheet''
              (Some ([(''start_date'', arg args ''start_date''), (''end_date'', arg args ''end_date'')] @
                     optional_field args ''accounting_method'')) w)
          else if name = ''qbo_reports_aged_receivables'' then
            respond ext s (get (ext_fetch ext) c ''reports/AgedReceivables''
              (Some (optional_field args ''report_date'')) w)
          else if name = ''qbo_reports_aged_payables'' then
            respond ext s (get (ext_fetch ext) c ''reports/AgedPayables''
              (Some (optional_field args ''report_date'')) w)
          else if name = ''qbo_reports_customer_sales'' then
            respond ext s (get (ext_fetch ext) c ''reports/CustomerSales''
              (Some [(''start_date'', arg args ''start_date''), (''end_date'', arg args ''end_date'')]) w)
          else (Inr (failed_result (''Unknown report tool: '' @ name)), s, w)))"

section \<open>Navigation and the tool router (index.ts)\<close>

definition domainDescriptions :: "(string \<times> string) list" where
  "domainDescriptions =
     [(''customers'', ''Customer management - list, get, create, and search customers''),
      (''invoices'', ''Invoice management - list, get, create invoices and send them by email''),
      (''expenses'', ''Expense tracking - list and view purchases and bills''),
      (''payments'', ''Payment management - list, get, and create payments linked to invoices''),
      (''reports'', ''Financial reports - profit & loss, balance sheet, aged receivables/payables, customer sales'')]"

definition domainDescription :: "string \<Rightarrow> string" where
  "domainDescription d = (case map_of domainDescriptions d of Some t \<Rightarrow> t | None \<Rightarrow> ''undefined'')"

text \<open>The five domain names, in the order of the \<open>enum\<close> of \<open>qbo_navigate\<close>.\<close>

definition domains :: "string list" where
  "domains = [''customers'', ''invoices'', ''expenses'', ''payments'', ''reports'']"

definition getDomainTools :: "js_value \<Rightarrow> Tool list option" where
  "getDomainTools domain =
     (if domain = JStr ''customers'' then Some customerTools
      else if domain = JStr ''invoices'' then Some invoiceTools
      else if domain = JStr ''expenses'' then Some expenseTools
      else if domain = JStr ''payments'' then Some paymentTools
      else if domain = JStr ''reports'' then Some reportTools
      else None)"

definition navigateTool :: Tool where
  "navigateTool =
     \<lparr>tool_name = ''qbo_navigate'',
      description = ''Navigate to a specific domain in QuickBooks Online. Call this first to select which area you want to work with. After navigation, domain-specific tools will be available.'',
      inputSchema = schema_required
        [(''domain'', prop_enum ''string'' domains
           (''The domain to navigate to:'' @ [CHR 0x0A] @
            ''- customers: '' @ domainDescription ''customers'' @ [CHR 0x0A] @
            ''- invoices: '' @ domainDescription ''invoices'' @ [CHR 0x0A] @
            ''- expenses: '' @ domainDescription ''expenses'' @ [CHR 0x0A] @
            ''- payments: '' @ domainDescription ''payments'' @ [CHR 0x0A] @
            ''- reports: '' @ domainDescription ''reports''))]
        [''domain'']\<rparr>"

definition backTool :: Tool where
  "backTool =
     \<lparr>tool_name = ''qbo_back'',
      description = ''Return to domain selection. Use this to switch to a different area of QuickBooks Online.'',
      inputSchema = schema []\<rparr>"

text \<open>
  The \<open>ListTools\<close> handler. \<open>getDomainTools\<close> returns \<open>undefined\<close> for a value
  that is none of the five names, and spreading \<open>undefined\<close> into \<open>push\<close>
  throws; the handler has no \<open>try\<close>.
\<close>

definition listTools :: "server_state \<Rightarrow> thrown + Tool list" where
  "listTools s =
     (if currentDomain s = JNull then Inr [navigateTool]
      else
        (case getDomainTools (currentDomain s) of
           None \<Rightarrow>
             Inl (ErrorObject ''TypeError''
                    ''Spread syntax requires ...iterable[Symbol.iterator] to be a function'')
         | Some domainTools \<Rightarrow> Inr ([backTool] @ domainTools)))"

text \<open>\<open>(args ?? {})\<close>\<close>

definition toolArgs :: "js_value \<Rightarrow> js_value" where
  "toolArgs args = (if args = JUndefined \<or> args = JNull then JObj [] else args)"

text \<open>
  The body of the \<open>try\<close> of the \<open>CallTool\<close> handler: the two navigation names
  first, then the five prefixes in order, then the unknown-tool result. \<open>Inl\<close> is a
  throw out of the body.
\<close>

definition callTool_try ::
  "'w externals \<Rightarrow> string \<Rightarrow> js_value \<Rightarrow> server_state \<times> 'w \<Rightarrow> (thrown + tool_result) \<times> server_state \<times> 'w" where
  "callTool_try ext name args sw =
     (case sw of (s, w) \<Rightarrow>
        if name = ''qbo_navigate'' then
          (if args = JUndefined \<or> args = JNull then
             (Inl (ErrorObject ''TypeError''
                (''Cannot destructure property '' @ quoted ''domain'' @ '' of '' @ quoted ''args'' @
                 '' as it is '' @ to_string args @ ''.'')), s, w)
           else
             (let domain = arg args ''domain'';
                  s' = s\<lparr>currentDomain := domain\<rparr>
              in case getDomainTools domain of
                   None \<Rightarrow>
                     (Inl (ErrorObject ''TypeError''
                        (''Cannot read properties of undefined (reading '' @ quoted ''map'' @ '')'')), s', w)
                 | Some domainTools \<Rightarrow>
                     (Inr (text_result
                        (''Navigated to '' @ to_string domain @ '' domain. Available tools: '' @
                         join '', '' (map tool_name domainTools))), s', w)))
        else if name = ''qbo_back'' then
          (Inr (text_result
             ''Returned to domain selection. Use qbo_navigate to select a domain: customers, invoices, expenses, payments, reports''),
           s\<lparr>currentDomain := JNull\<rparr>, w)
        else if prefix ''qbo_customers_'' name then handleCustomerTool ext name (toolArgs args) (s, w)
        else if prefix ''qbo_invoices_'' name then handleInvoiceTool ext name (toolArgs args) (s, w)
        else if prefix ''qbo_expenses_'' name then handleExpenseTool ext name (toolArgs args) (s, w)
        else if prefix ''qbo_payments_'' name then handlePaymentTool ext name (toolArgs args) (s, w)
        else if prefix ''qbo_reports_'' name then handleReportTool ext name (toolArgs args) (s, w)
        else
          (Inr (failed_result (''Unknown tool: '' @ name @ ''. Use qbo_navigate to select a domain first.'')),
           s, w))"

text \<open>\<open>error instanceof Error ? error.message : String(error)\<close>\<close>

fun error_message :: "thrown \<Rightarrow> string" where
  "error_message (ErrorObject cls msg) = msg"
| "error_message (NonError v) = to_string v"

text \<open>The \<open>CallTool\<close> handler: the body, and the \<open>catch\<close> around it.\<close>

definition callTool ::
  "'w externals \<Rightarrow> string \<Rightarrow> js_value \<Rightarrow> server_state \<times> 'w \<Rightarrow> tool_result \<times> server_state \<times> 'w" where
  "callTool ext name args sw =
     (case callTool_try ext name args sw of
        (Inl error, sw') \<Rightarrow> (failed_result (''Error: '' @ error_message error), sw')
      | (Inr result, sw') \<Rightarrow> (result, sw'))"

section \<open>The HTTP transport (startHttpTransport)\<close>

text \<open>
  An inbound HTTP request as the \<open>createServer\<close> callback reads it: the path of its
  URL and its headers (Node lower-cases header names).
\<close>

record http_in =
  in_pathname :: string
  in_headers :: "(string \<times> string) list"

text \<open>
  What the callback does with the request: it answers itself (a status and a JSON body),
  or it hands the request to \<open>transport.handleRequest\<close>.
\<close>

datatype http_out =
    Reply nat js_value
  | HandleRequest

definition missing_credentials_body :: js_value where
  "missing_credentials_body =
     JObj [(''error'', JStr ''Missing credentials''),
           (''message'', JStr ''Gateway mode requires X-Qbo-Access-Token and X-Qbo-Realm-Id headers''),
           (''required'', JArr [JStr ''X-Qbo-Access-Token'', JStr ''X-Qbo-Realm-Id''])]"

text \<open>
  The callback, run to its end without interruption (it has no \<open>await\<close>);
  \<open>now\<close> is \<open>new Date().toISOString()\<close>. Writes to the console are left out.
\<close>

definition http_callback :: "string \<Rightarrow> bool \<Rightarrow> http_in \<Rightarrow> server_state \<Rightarrow> http_out \<times> server_state" where
  "http_callback now isGatewayMode req s =
     (if in_pathname req = ''/health'' then
        (Reply 200 (JObj [(''status'', JStr ''ok''), (''transport'', JStr ''http''),
                          (''authMode'', JStr (if isGatewayMode then ''gateway'' else ''env'')),
                          (''timestamp'', JStr now)]), s)
      else if in_pathname req = ''/mcp'' then
        (if isGatewayMode then
           (let accessToken = map_of (in_headers req) ''x-qbo-access-token'';
                realmId = map_of (in_headers req) ''x-qbo-realm-id''
            in if falsy_string accessToken \<or> falsy_string realmId then
                 (Reply 401 missing_credentials_body, s)
               else
                 (HandleRequest,
                  (resetClient s)\<lparr>env_QBO_ACCESS_TOKEN := accessToken, env_QBO_REALM_ID := realmId\<rparr>))
         else (HandleRequest, s))
      else
        (Reply 404 (JObj [(''error'', JStr ''Not found''),
                          (''endpoints'', JArr [JStr ''/mcp'', JStr ''/health''])]), s))"

text \<open>
  The protocol messages the transport decodes from a request's body, and what the
  server's request handlers answer. The SDK turns a throw out of a handler into a
  protocol-level fault.
\<close>

datatype mcp_message =
    ListToolsRequest
  | CallToolRequest string js_value

datatype mcp_reply =
    ToolsList "Tool list"
  | ToolResult tool_result
  | Fault thrown

definition handle_message ::
  "'w externals \<Rightarrow> mcp_message \<Rightarrow> server_state \<times> 'w \<Rightarrow> mcp_reply \<times> server_state \<times> 'w" where
  "handle_message ext msg sw =
     (case msg of
        ListToolsRequest \<Rightarrow>
          (case listTools (fst sw) of Inl e \<Rightarrow> (Fault e, sw) | Inr tools \<Rightarrow> (ToolsList tools, sw))
      | CallToolRequest name args \<Rightarrow>
          (case callTool ext name args sw of (result, sw') \<Rightarrow> (ToolResult result, sw')))"

text \<open>
  The server's event loop runs one piece of code at a time. The callback of
  \<open>createServer\<close> runs when a request's headers have arrived; the request handler
  runs in a later turn, once the transport has read and decoded the body, and other
  requests' callbacks may run in between. A run of the server is a sequence of events.
\<close>

datatype event =
    Arrive http_in
  | Dispatch mcp_message

datatype served =
    HttpOut http_out
  | McpOut mcp_reply

definition run_event ::
  "'w externals \<Rightarrow> string \<Rightarrow> bool \<Rightarrow> event \<Rightarrow> server_state \<times> 'w \<Rightarrow> served \<times> server_state \<times> 'w" where
  "run_event ext now isGatewayMode ev sw =
     (case ev of
        Arrive req \<Rightarrow>
          (case http_callback now isGatewayMode req (fst sw) of (out, s') \<Rightarrow> (HttpOut out, s', snd sw))
      | Dispatch msg \<Rightarrow>
          (case handle_message ext msg sw of (reply, sw') \<Rightarrow> (McpOut reply, sw')))"

fun run_events ::
  "'w externals \<Rightarrow> string \<Rightarrow> bool \<Rightarrow> event list \<Rightarrow> server_state \<times> 'w \<Rightarrow> served list \<times> server_state \<times> 'w" where
  "run_events ext now isGatewayMode [] sw = ([], sw)"
| "run_events ext now isGatewayMode (ev # evs) sw =
     (case run_event ext now isGatewayMode ev sw of
        (out, sw') \<Rightarrow>
          (case run_events ext now isGatewayMode evs sw' of (outs, sw'') \<Rightarrow> (out # outs, sw'')))"

text \<open>
  One inbound request served with no other request in between: the callback, then,
  if the callback handed the request on, the handler of its message.
\<close>

definition serve ::
  "'w externals \<Rightarrow> string \<Rightarrow> bool \<Rightarrow> http_in \<Rightarrow> mcp_message \<Rightarrow> server_state \<times> 'w \<Rightarrow> served \<times> server_state \<times> 'w" where
  "serve ext now isGatewayMode req msg sw =
     (case http_callback now isGatewayMode req (fst sw) of
        (Reply status body, s') \<Rightarrow> (HttpOut (Reply status body), s', snd sw)
      | (HandleRequest, s') \<Rightarrow>
          (case handle_message ext msg (s', snd sw) of (reply, sw') \<Rightarrow> (McpOut reply, sw')))"

section \<open>A scripted upstream\<close>

text \<open>
  Two stand-ins for the outbound transport, for statements about the requests a run
  issues. \<open>logged\<close> wraps any transport and records each request it is called with.
  \<open>mock_fetch\<close> answers from a script, one answer per request in order (a connection
  failure once the script is used up), and records the requests too.
\<close>

definition logged :: "'w fetch \<Rightarrow> (http_request list \<times> 'w) fetch" where
  "logged fch req lw = (case fch req (snd lw) of (r, w') \<Rightarrow> (r, (fst lw @ [req], w')))"

definition mock_fetch :: "(fetch_result list \<times> http_request list) fetch" where
  "mock_fetch req w =
     (case fst w of
        [] \<Rightarrow> (Rejected (ErrorObject ''TypeError'' ''fetch failed''), ([], snd w @ [req]))
      | r # rs \<Rightarrow> (r, (rs, snd w @ [req])))"

text \<open>The request of one round of the paginated fetch.\<close>

definition page_request :: "QboClient \<Rightarrow> string \<Rightarrow> int \<Rightarrow> int \<Rightarrow> http_request" where
  "page_request c baseSql startPosition maxResults =
     build_request c ''POST'' ''query'' None (JStr (paginatedSql baseSql startPosition maxResults))"

text \<open>
  What \<open>await this.query(sql)\<close> evaluates to for an answer of the upstream, \<open>None\<close>
  where it throws; whether a round of the paginated fetch gets through without a throw
  (the body is there and reading its \<open>QueryResponse\<close> does not fault); and the round's
  batch: the first array-valued field of the \<open>QueryResponse\<close>, empty where there is none.
\<close>

definition answer_body :: "fetch_result \<Rightarrow> js_value option" where
  "answer_body r =
     (case r of
        Rejected e \<Rightarrow> None
      | Resolved response \<Rightarrow>
          if \<not> resp_ok response then None
          else if resp_status response = 204 then Some JNull
          else (case resp_json response of Inl e \<Rightarrow> None | Inr body \<Rightarrow> Some body))"

definition answered :: "fetch_result \<Rightarrow> bool" where
  "answered r = (case answer_body r of None \<Rightarrow> False | Some body \<Rightarrow> body \<noteq> JNull \<and> body \<noteq> JUndefined)"

definition batch :: "fetch_result \<Rightarrow> js_value list" where
  "batch r =
     (case answer_body r of
        None \<Rightarrow> []
      | Some body \<Rightarrow>
          (case get_prop body ''QueryResponse'' of
             Inl e \<Rightarrow> []
           | Inr qr \<Rightarrow>
               if truthy qr then
                 (case find is_array (object_values qr) of Some (JArr entities) \<Rightarrow> entities | _ \<Rightarrow> [])
               else []))"

text \<open>
  Test data: the items numbered \<open>a\<close> to \<open>a + n - 1\<close>, a 200 answer carrying a
  \<open>QueryResponse\<close> whose \<open>Invoice\<close> field holds the given items, a client, and
  externals over the scripted upstream (their serialiser and their date are stand-ins: any
  function and any date would do).
\<close>

definition item_range :: "nat \<Rightarrow> nat \<Rightarrow> js_value list" where
  "item_range a n = map (\<lambda>i. JObj [(''Id'', JStr (show_nat i))]) [a..<a + n]"

definition page :: "js_value list \<Rightarrow> fetch_result" where
  "page items =
     Resolved \<lparr>resp_status = 200, resp_text = [],
               resp_json = Inr (JObj [(''QueryResponse'',
                                        JObj [(''startPosition'', JNum 1), (''Invoice'', JArr items),
                                              (''maxResults'', JNum (int (length items)))]),
                                      (''time'', JStr ''2026-01-01T00:00:00.000-08:00'')])\<rparr>"

definition test_client :: QboClient where
  "test_client = new_QboClient \<lparr>accessToken = ''token-A'', realmId = ''1001''\<rparr>"

definition test_ext :: "(fetch_result list \<times> http_request list) externals" where
  "test_ext = \<lparr>ext_fetch = mock_fetch, ext_stringify = to_string, ext_today = (\<lambda>w. ''2026-11-03'')\<rparr>"

section \<open>Navigation steps and test data\<close>

text \<open>
  The two navigation operations as a caller issues them, and the descriptors of a
  domain (the list \<open>getDomainTools\<close> returns for its name).
\<close>

definition nav_select :: "'w externals \<Rightarrow> string \<Rightarrow> server_state \<times> 'w \<Rightarrow> tool_result \<times> server_state \<times> 'w" where
  "nav_select ext d sw = callTool ext ''qbo_navigate'' (JObj [(''domain'', JStr d)]) sw"

definition nav_back :: "'w externals \<Rightarrow> server_state \<times> 'w \<Rightarrow> tool_result \<times> server_state \<times> 'w" where
  "nav_back ext sw = callTool ext ''qbo_back'' (JObj []) sw"

definition descriptorsOf :: "string \<Rightarrow> Tool list" where
  "descriptorsOf d = (case getDomainTools (JStr d) of None \<Rightarrow> [] | Some tools \<Rightarrow> tools)"

text \<open>
  Test data: arguments of \<open>qbo_invoices_list\<close> with an adversarial start date, a
  process started with credentials in its environment, and two inbound requests of
  different tenants.
\<close>

definition overdue_args :: js_value where
  "overdue_args = JObj [(''status'', JStr ''Overdue''), (''startDate'', JStr ''2026-01-01' OR '1'='1'')]"

definition test_state :: server_state where
  "test_state = initial_state (Some ''token-A'') (Some ''1001'')"


definition request_A :: http_in where
  "request_A = \<lparr>in_pathname = ''/mcp'',
                 in_headers = [(''x-qbo-access-token'', ''token-A''), (''x-qbo-realm-id'', ''1001'')]\<rparr>"

definition request_B :: http_in where
  "request_B = \<lparr>in_pathname = ''/mcp'',
                 in_headers = [(''x-qbo-access-token'', ''token-B''), (''x-qbo-realm-id'', ''2002'')]\<rparr>"

section \<open>The paginated fetch\<close>

lemma query_logged:
  "snd (query (logged fch) c sql (lg, w)) =
     (lg @ [build_request c ''POST'' ''query'' None (JStr sql)], snd (query fch c sql w))"
  by (simp add: query_def request_def logged_def split: prod.splits fetch_result.splits)

lemma paginate_log:
  "\<exists>n. fst (snd (paginate fuel (logged fch) c baseSql m start items (lg, w))) =
        lg @ map (\<lambda>k. page_request c baseSql (start + int k * m) m) [0..<n]"
proof (induction fuel arbitrary: start items lg w)
  case 0
  have "fst (snd (paginate 0 (logged fch) c baseSql m start items (lg, w))) =
        lg @ map (\<lambda>k. page_request c baseSql (start + int k * m) m) [0..<0]" by simp
  then show ?case by blast
next
  case (Suc fuel)
  let ?R = "\<lambda>s k. page_request c baseSql (s + int k * m) m"
  obtain res lw' where q: "query (logged fch) c (paginatedSql baseSql start m) (lg, w) = (res, lw')"
    by (cases "query (logged fch) c (paginatedSql baseSql start m) (lg, w)")
  from query_logged[of fch c "paginatedSql baseSql start m" lg w] q
  have lw': "fst lw' = lg @ [?R start 0]" by (simp add: page_request_def)
  have one: "lg @ [?R start 0] = lg @ map (?R start) [0..<1]" by simp
  obtain lg' w' where lw'_eq: "lw' = (lg', w')" by (cases lw')
  with lw' have lg': "lg' = lg @ [?R start 0]" by simp
  have rec: "\<And>items'. \<exists>n. fst (snd (paginate fuel (logged fch) c baseSql m (start + m) items' (lg', w'))) =
        lg @ map (?R start) [0..<n]"
  proof -
    fix items'
    from Suc.IH[of "start + m" items' lg' w'] obtain n where
      n: "fst (snd (paginate fuel (logged fch) c baseSql m (start + m) items' (lg', w'))) =
          lg' @ map (?R (start + m)) [0..<n]" by blast
    have "lg' @ map (?R (start + m)) [0..<n] = lg @ map (?R start) [0..<Suc n]"
      unfolding lg' by (simp add: map_upt_Suc algebra_simps del: upt_Suc)
    with n show "\<exists>n. fst (snd (paginate fuel (logged fch) c baseSql m (start + m) items' (lg', w'))) =
        lg @ map (?R start) [0..<n]" by metis
  qed
  have stop: "\<exists>n. fst lw' = lg @ map (?R start) [0..<n]"
    using lw' one by metis
  show ?case
    using q rec stop lw'_eq
    by (auto simp add: split: sum.splits option.splits js_value.splits prod.splits simp del: upt_Suc)
qed

lemma get_prop_Inr: "body \<noteq> JNull \<Longrightarrow> body \<noteq> JUndefined \<Longrightarrow> \<exists>v. get_prop body key = Inr v"
  by (cases body) auto

lemma paginate_mock_round:
  assumes "answered r"
  shows "paginate (Suc fuel) mock_fetch c baseSql m start items (r # rs, lg) =
     (if batch r \<noteq> [] \<and> \<not> int (length (batch r)) < m
      then paginate fuel mock_fetch c baseSql m (start + m) (items @ batch r)
             (rs, lg @ [page_request c baseSql start m])
      else (Some (Inr (items @ batch r)), (rs, lg @ [page_request c baseSql start m])))"
proof -
  from assms obtain body where b: "answer_body r = Some body" "body \<noteq> JNull" "body \<noteq> JUndefined"
    by (auto simp: answered_def split: option.splits)
  then obtain qr where qr: "get_prop body ''QueryResponse'' = Inr qr"
    using get_prop_Inr by blast
  from b(1) have q: "query mock_fetch c (paginatedSql baseSql start m) (r # rs, lg) =
      (Inr body, (rs, lg @ [page_request c baseSql start m]))"
    by (auto simp: answer_body_def query_def request_def mock_fetch_def page_request_def
          split: fetch_result.splits if_splits sum.splits)
  have bt: "batch r = (if truthy qr then
                 (case find is_array (object_values qr) of Some (JArr entities) \<Rightarrow> entities | _ \<Rightarrow> [])
               else [])"
    by (simp add: batch_def b(1) qr)
  show ?thesis
    unfolding paginate.simps q bt
    by (simp add: qr split: option.splits js_value.splits)
qed

lemma paginate_mock_rounds:
  "length full < fuel \<Longrightarrow>
   \<forall>r \<in> set full. answered r \<and> batch r \<noteq> [] \<and> \<not> int (length (batch r)) < m \<Longrightarrow>
   answered lst \<Longrightarrow> batch lst = [] \<or> int (length (batch lst)) < m \<Longrightarrow>
   paginate fuel mock_fetch c baseSql m start items (full @ lst # rest, lg) =
     (Some (Inr (items @ concat (map batch (full @ [lst])))),
      (rest, lg @ map (\<lambda>k. page_request c baseSql (start + int k * m) m) [0..<Suc (length full)]))"
proof (induction full arbitrary: fuel start items lg)
  case Nil
  then obtain f where f: "fuel = Suc f" by (cases fuel) auto
  show ?case unfolding f using Nil.prems by (auto simp: paginate_mock_round simp del: paginate.simps)
next
  case (Cons r full)
  then obtain f where f: "fuel = Suc f" by (cases fuel) auto
  from Cons.prems have r: "answered r" "batch r \<noteq> []" "\<not> int (length (batch r)) < m"
    and rest: "\<forall>r \<in> set full. answered r \<and> batch r \<noteq> [] \<and> \<not> int (length (batch r)) < m"
    and len: "length full < f" using f by auto
  have step: "paginate (Suc f) mock_fetch c baseSql m start items ((r # full) @ lst # rest, lg) =
      paginate f mock_fetch c baseSql m (start + m) (items @ batch r)
        (full @ lst # rest, lg @ [page_request c baseSql start m])"
    using r by (simp add: paginate_mock_round del: paginate.simps)
  have shift: "[page_request c baseSql start m] @
        map (\<lambda>k. page_request c baseSql (start + m + int k * m) m) [0..<Suc (length full)] =
        map (\<lambda>k. page_request c baseSql (start + int k * m) m) [0..<Suc (length (r # full))]"
    by (simp add: map_upt_Suc algebra_simps del: upt_Suc)
  show ?case
    unfolding f step Cons.IH[OF len rest Cons.prems(3) Cons.prems(4)]
    using shift by (simp del: upt_Suc paginate.simps)
qed

text \<open>
  Claim C2. Against a scripted upstream whose first answers each carry a batch that is
  neither empty nor shorter than the page size \<open>m\<close>, followed by an answer whose
  batch is empty (no array-valued field, or an empty array) or shorter than \<open>m\<close>,
  the paginated fetch, given enough fuel, returns: it issues one request per answer up to
  and including that last one and no more (the rest of the script is left untouched), the
  request of round \<open>k\<close> carries \<open>STARTPOSITION 1 + k * m\<close> and
  \<open>MAXRESULTS m\<close>, and the result is the batches concatenated in fetch order,
  nothing removed.
\<close>

theorem getPaginated_rounds:
  assumes "\<forall>r \<in> set full. answered r \<and> batch r \<noteq> [] \<and> \<not> int (length (batch r)) < m"
    and "answered lst" and "batch lst = [] \<or> int (length (batch lst)) < m"
    and "length full < fuel"
  shows "getPaginated fuel mock_fetch c baseSql (Some m) (full @ lst # rest, []) =
     (Some (Inr (concat (map batch (full @ [lst])))),
      (rest, map (\<lambda>k. page_request c baseSql (1 + int k * m) m) [0..<Suc (length full)]))"
  unfolding getPaginated_def default_maxResults_def
  using paginate_mock_rounds[OF assms(4) assms(1) assms(2) assms(3), of c baseSql 1 "[]" rest "[]"]
  by simp

lemma length_item_range: "length (item_range a n) = n"
  by (simp add: item_range_def)

lemma item_range_append: "item_range a n @ item_range (a + n) k = item_range a (n + k)"
proof -
  have "[a..<(a + n) + k] = [a..<a + n] @ [a + n..<(a + n) + k]"
    by (rule upt_add_eq_append) simp
  then show ?thesis
    by (simp add: item_range_def add.assoc)
qed

lemma item_range_Nil: "(item_range a n = []) = (n = 0)"
  by (auto simp add: item_range_def)

lemma answered_page: "answered (page items)"
  by (simp add: answered_def answer_body_def page_def resp_ok_def)

lemma batch_page: "batch (page items) = items"
  by (simp add: batch_def answer_body_def page_def resp_ok_def)

lemma show_int_1: "show_int 1 = ''1''"
  by (simp add: show_int_def show_nat.simps digit_char_def)
lemma show_int_1000: "show_int 1000 = ''1000''"
  by (simp add: show_int_def show_nat.simps digit_char_def)
lemma show_int_1001: "show_int 1001 = ''1001''"
  by (simp add: show_int_def show_nat.simps digit_char_def)
lemma show_int_2001: "show_int 2001 = ''2001''"
  by (simp add: show_int_def show_nat.simps digit_char_def)

text \<open>
  The instance of the specification: batches of 1000, 1000 and 400 items at page size
  1000 give three requests, at positions 1, 1001 and 2001, and all 2400 items in order.
\<close>

theorem getPaginated_rounds_witness:
  "getPaginated 3 mock_fetch test_client ''SELECT * FROM Invoice'' (Some 1000)
     ([page (item_range 0 1000), page (item_range 1000 1000), page (item_range 2000 400)], []) =
   (Some (Inr (item_range 0 2400)),
    ([], [page_request test_client ''SELECT * FROM Invoice'' 1 1000,
          page_request test_client ''SELECT * FROM Invoice'' 1001 1000,
          page_request test_client ''SELECT * FROM Invoice'' 2001 1000]))
   \<and> map req_body
       [page_request test_client ''SELECT * FROM Invoice'' 1 1000,
        page_request test_client ''SELECT * FROM Invoice'' 1001 1000,
        page_request test_client ''SELECT * FROM Invoice'' 2001 1000] =
      [Some (JStr ''SELECT * FROM Invoice STARTPOSITION 1 MAXRESULTS 1000''),
       Some (JStr ''SELECT * FROM Invoice STARTPOSITION 1001 MAXRESULTS 1000''),
       Some (JStr ''SELECT * FROM Invoice STARTPOSITION 2001 MAXRESULTS 1000'')]
   \<and> length (item_range 0 2400) = 2400"
proof -
  have r: "item_range 0 1000 @ item_range 1000 1000 @ item_range 2000 400 = item_range 0 2400"
    using item_range_append[of 0 1000 1000] item_range_append[of 0 2000 400]
    by (simp flip: append_assoc)
  have u: "[0..<Suc (Suc (Suc 0))] = [0, 1, 2]" by (simp add: upt_rec)
  show ?thesis
    using getPaginated_rounds[of "[page (item_range 0 1000), page (item_range 1000 1000)]" 1000
        "page (item_range 2000 400)" 3 test_client "''SELECT * FROM Invoice''" "[]"]
    by (simp add: answered_page batch_page length_item_range item_range_Nil r u page_request_def build_request_def
          paginatedSql_def show_int_1 show_int_1000 show_int_1001 show_int_2001 del: upt_Suc)
qed

text \<open>
  Claim C3, as the code has it. The page size of the paginated fetch is
  \<open>MAX_PAGE_SIZE\<close> = 1000 when the caller gives none, and the caller's value
  otherwise. Whatever the upstream answers and however long the loop runs, the requests
  issued are exactly the page requests at positions 1, 1 + size, 1 + 2 * size, ..., each
  carrying \<open>MAXRESULTS size\<close> for that page size: the value is passed on as it is.
\<close>

theorem getPaginated_page_size:
  "default_maxResults None = 1000
   \<and> default_maxResults (Some m) = m
   \<and> fst (snd (getPaginated fuel (logged fch) c baseSql maxResults ([], w))) =
       map (\<lambda>k. page_request c baseSql (1 + int k * default_maxResults maxResults)
                  (default_maxResults maxResults))
         [0..<length (fst (snd (getPaginated fuel (logged fch) c baseSql maxResults ([], w))))]
   \<and> req_body (page_request c baseSql n (default_maxResults maxResults)) =
       Some (JStr (baseSql @ '' STARTPOSITION '' @ show_int n @ '' MAXRESULTS '' @
                   show_int (default_maxResults maxResults)))"
proof -
  obtain k where k: "fst (snd (getPaginated fuel (logged fch) c baseSql maxResults ([], w))) =
      map (\<lambda>k. page_request c baseSql (1 + int k * default_maxResults maxResults)
                 (default_maxResults maxResults)) [0..<k]"
    using paginate_log[of fuel fch c baseSql "default_maxResults maxResults" 1 "[]" "[]" w]
    by (auto simp: getPaginated_def)
  have "length (fst (snd (getPaginated fuel (logged fch) c baseSql maxResults ([], w)))) = k"
    unfolding k by simp
  with k have log: "fst (snd (getPaginated fuel (logged fch) c baseSql maxResults ([], w))) =
       map (\<lambda>k. page_request c baseSql (1 + int k * default_maxResults maxResults)
                  (default_maxResults maxResults))
         [0..<length (fst (snd (getPaginated fuel (logged fch) c baseSql maxResults ([], w))))]"
    by simp
  have dflt: "default_maxResults None = 1000" "default_maxResults (Some m) = m"
    by (simp_all add: default_maxResults_def MAX_PAGE_SIZE_def)
  have body: "req_body (page_request c baseSql n (default_maxResults maxResults)) =
       Some (JStr (baseSql @ '' STARTPOSITION '' @ show_int n @ '' MAXRESULTS '' @
                   show_int (default_maxResults maxResults)))"
    by (simp add: page_request_def build_request_def paginatedSql_def)
  from dflt log body show ?thesis by blast
qed

lemma show_int_5000: "show_int 5000 = ''5000''"
  by (simp add: show_int_def show_nat.simps digit_char_def)

text \<open>
  Claim C3 as stated fails twice: with no page size given the request carries
  \<open>MAXRESULTS 1000\<close>, not 100; and a caller's page size of 5000 is sent as
  \<open>MAXRESULTS 5000\<close>.
\<close>

theorem getPaginated_cap_counterexample:
  "map req_body (snd (snd (getPaginated 1 mock_fetch test_client ''SELECT * FROM Customer'' None
      ([page []], [])))) =
     [Some (JStr ''SELECT * FROM Customer STARTPOSITION 1 MAXRESULTS 1000'')]
   \<and> map req_body (snd (snd (getPaginated 1 mock_fetch test_client ''SELECT * FROM Customer'' (Some 5000)
      ([page []], [])))) =
     [Some (JStr ''SELECT * FROM Customer STARTPOSITION 1 MAXRESULTS 5000'')]"
proof -
  have a: "getPaginated 1 mock_fetch test_client ''SELECT * FROM Customer'' (Some m) ([page []], []) =
      (Some (Inr []), ([], [page_request test_client ''SELECT * FROM Customer'' 1 m]))" for m
    using paginate_mock_rounds[of "[]" 1 m "page []" test_client "''SELECT * FROM Customer''" 1 "[]" "[]" "[]"]
    by (simp add: getPaginated_def default_maxResults_def answered_page batch_page del: paginate.simps)
  have b: "getPaginated 1 mock_fetch test_client ''SELECT * FROM Customer'' None =
           getPaginated 1 mock_fetch test_client ''SELECT * FROM Customer'' (Some 1000)"
    by (simp add: getPaginated_def default_maxResults_def MAX_PAGE_SIZE_def fun_eq_iff)
  show ?thesis
    unfolding b a
    by (simp add: page_request_def build_request_def paginatedSql_def show_int_1 show_int_1000 show_int_5000)
qed

section \<open>Upstream requests\<close>

text \<open>
  Claim C8. For every upstream request made through \<open>QboClient.request\<close>: an answer
  whose status is outside 200..299 is thrown as an error whose message holds the method,
  the path, the status and the body of the answer; a 204 answer yields \<open>null\<close>; and
  the client calls \<open>fetch\<close> exactly once, with the bearer token of its own
  configuration and under its own base address, whatever the outcome.
\<close>

theorem request_outcomes:
  "(fch (build_request c verb path params body) w = (Resolved response, w')
      \<and> (resp_status response < 200 \<or> 299 < resp_status response) \<longrightarrow>
    request fch c verb path params body w =
      (Inl (ErrorObject ''Error''
         (''QBO API error '' @ verb @ '' /'' @ path @ '' ('' @ show_nat (resp_status response) @ ''): '' @
          resp_text response)), w'))
   \<and> (fch (build_request c verb path params body) w = (Resolved response, w')
      \<and> resp_status response = 204 \<longrightarrow>
    request fch c verb path params body w = (Inr JNull, w'))
   \<and> fst (snd (request (logged fch) c verb path params body ([], w))) =
       [build_request c verb path params body]
   \<and> map_of (req_headers (build_request c verb path params body)) ''Authorization'' =
       Some (''Bearer '' @ accessToken (config c))
   \<and> req_url (build_request c verb path params body) = baseUrl c @ ''/'' @ path"
proof -
  have non2xx: "fch (build_request c verb path params body) w = (Resolved response, w')
      \<and> (resp_status response < 200 \<or> 299 < resp_status response) \<longrightarrow>
    request fch c verb path params body w =
      (Inl (ErrorObject ''Error''
         (''QBO API error '' @ verb @ '' /'' @ path @ '' ('' @ show_nat (resp_status response) @ ''): '' @
          resp_text response)), w')"
    by (auto simp: request_def resp_ok_def)
  have nocontent: "fch (build_request c verb path params body) w = (Resolved response, w')
      \<and> resp_status response = 204 \<longrightarrow>
    request fch c verb path params body w = (Inr JNull, w')"
    by (auto simp: request_def resp_ok_def)
  have once: "fst (snd (request (logged fch) c verb path params body ([], w))) =
       [build_request c verb path params body]"
    by (simp add: request_def logged_def split: prod.splits fetch_result.splits)
  have auth: "map_of (req_headers (build_request c verb path params body)) ''Authorization'' =
       Some (''Bearer '' @ accessToken (config c))"
    by (simp add: build_request_def)
  have url: "req_url (build_request c verb path params body) = baseUrl c @ ''/'' @ path"
    by (simp add: build_request_def)
  from non2xx nocontent once auth url show ?thesis by blast
qed

lemma show_nat_401: "show_nat 401 = ''401''"
  by (simp add: show_nat.simps digit_char_def)

text \<open>A 401 answer and a 204 answer, with the test client.\<close>

theorem request_outcomes_witness:
  "request mock_fetch test_client ''GET'' ''customer/42'' None JUndefined
     ([Resolved \<lparr>resp_status = 401, resp_text = ''AuthenticationFailed'',
                  resp_json = Inr (JStr ''AuthenticationFailed'')\<rparr>], []) =
     (Inl (ErrorObject ''Error'' ''QBO API error GET /customer/42 (401): AuthenticationFailed''),
      ([], [build_request test_client ''GET'' ''customer/42'' None JUndefined]))
   \<and> request mock_fetch test_client ''POST'' ''invoice/7/send'' (Some []) JUndefined
     ([Resolved \<lparr>resp_status = 204, resp_text = [], resp_json = Inl (ErrorObject ''SyntaxError'' ''Unexpected end of JSON input'')\<rparr>], []) =
     (Inr JNull, ([], [build_request test_client ''POST'' ''invoice/7/send'' (Some []) JUndefined]))
   \<and> map_of (req_headers (build_request test_client ''GET'' ''customer/42'' None JUndefined)) ''Authorization'' =
       Some ''Bearer token-A''
   \<and> req_url (build_request test_client ''GET'' ''customer/42'' None JUndefined) =
       ''https://quickbooks.api.intuit.com/v3/company/1001/customer/42''"
  using request_outcomes[where fch = mock_fetch and c = test_client and verb = "''GET''"
      and path = "''customer/42''" and params = None and body = JUndefined
      and w = "([Resolved \<lparr>resp_status = 401, resp_text = ''AuthenticationFailed'',
                  resp_json = Inr (JStr ''AuthenticationFailed'')\<rparr>], [])"
      and response = "\<lparr>resp_status = 401, resp_text = ''AuthenticationFailed'',
                  resp_json = Inr (JStr ''AuthenticationFailed'')\<rparr>"
      and w' = "([], [build_request test_client ''GET'' ''customer/42'' None JUndefined])"]
    request_outcomes[where fch = mock_fetch and c = test_client and verb = "''POST''"
      and path = "''invoice/7/send''" and params = "Some []" and body = JUndefined
      and w = "([Resolved \<lparr>resp_status = 204, resp_text = [], resp_json = Inl (ErrorObject ''SyntaxError'' ''Unexpected end of JSON input'')\<rparr>], [])"
      and response = "\<lparr>resp_status = 204, resp_text = [], resp_json = Inl (ErrorObject ''SyntaxError'' ''Unexpected end of JSON input'')\<rparr>"
      and w' = "([], [build_request test_client ''POST'' ''invoice/7/send'' (Some []) JUndefined])"]
  by (simp add: mock_fetch_def show_nat_401 test_client_def new_QboClient_def QBO_API_BASE_def)

section \<open>Navigation\<close>

lemma getDomainTools_domains:
  "d \<in> set domains \<Longrightarrow> getDomainTools (JStr d) = Some (descriptorsOf d)"
  by (auto simp: domains_def getDomainTools_def descriptorsOf_def)

lemma getDomainTools_not_domain:
  "d \<notin> set domains \<Longrightarrow> getDomainTools (JStr d) = None"
  by (auto simp: domains_def getDomainTools_def)

lemma select_state:
  "fst (snd (nav_select ext d (s, w))) = s\<lparr>currentDomain := JStr d\<rparr>"
  by (simp add: nav_select_def callTool_def callTool_try_def arg_def Let_def split: option.splits)

lemma customer_names: "map tool_name customerTools =
    [''qbo_customers_list'', ''qbo_customers_get'', ''qbo_customers_create'', ''qbo_customers_search'']"
  by (simp add: customerTools_def)

lemma invoice_names: "map tool_name invoiceTools =
    [''qbo_invoices_list'', ''qbo_invoices_get'', ''qbo_invoices_create'', ''qbo_invoices_send'']"
  by (simp add: invoiceTools_def)

lemma expense_names: "map tool_name expenseTools =
    [''qbo_expenses_list_purchases'', ''qbo_expenses_list_bills'', ''qbo_expenses_get_purchase'',
     ''qbo_expenses_get_bill'']"
  by (simp add: expenseTools_def)

lemma payment_names: "map tool_name paymentTools =
    [''qbo_payments_list'', ''qbo_payments_get'', ''qbo_payments_create'']"
  by (simp add: paymentTools_def)

lemma report_names: "map tool_name reportTools =
    [''qbo_reports_profit_and_loss'', ''qbo_reports_balance_sheet'', ''qbo_reports_aged_receivables'',
     ''qbo_reports_aged_payables'', ''qbo_reports_customer_sales'']"
  by (simp add: reportTools_def)

lemma descriptor_names:
  "map tool_name (descriptorsOf ''customers'') = map tool_name customerTools"
  "map tool_name (descriptorsOf ''invoices'') = map tool_name invoiceTools"
  "map tool_name (descriptorsOf ''expenses'') = map tool_name expenseTools"
  "map tool_name (descriptorsOf ''payments'') = map tool_name paymentTools"
  "map tool_name (descriptorsOf ''reports'') = map tool_name reportTools"
  by (simp_all add: descriptorsOf_def getDomainTools_def)

lemma domains_cases:
  "d \<in> set domains \<Longrightarrow>
   d = ''customers'' \<or> d = ''invoices'' \<or> d = ''expenses'' \<or> d = ''payments'' \<or> d = ''reports''"
  by (simp add: domains_def)

lemma descriptor_prefix:
  assumes "d \<in> set domains" and "n \<in> set (map tool_name (descriptorsOf d))"
  shows "prefix (''qbo_'' @ d @ ''_'') n"
  using domains_cases[OF assms(1)]
proof (elim disjE)
  assume "d = ''customers''"
  with assms(2) have "n \<in> set (map tool_name customerTools)" by (simp add: descriptor_names)
  then have "n = ''qbo_customers_list'' \<or> n = ''qbo_customers_get'' \<or> n = ''qbo_customers_create''
      \<or> n = ''qbo_customers_search''"
    unfolding customer_names by simp
  then show ?thesis unfolding \<open>d = ''customers''\<close> by (elim disjE) simp_all
next
  assume "d = ''invoices''"
  with assms(2) have "n \<in> set (map tool_name invoiceTools)" by (simp add: descriptor_names)
  then have "n = ''qbo_invoices_list'' \<or> n = ''qbo_invoices_get'' \<or> n = ''qbo_invoices_create''
      \<or> n = ''qbo_invoices_send''"
    unfolding invoice_names by simp
  then show ?thesis unfolding \<open>d = ''invoices''\<close> by (elim disjE) simp_all
next
  assume "d = ''expenses''"
  with assms(2) have "n \<in> set (map tool_name expenseTools)" by (simp add: descriptor_names)
  then have "n = ''qbo_expenses_list_purchases'' \<or> n = ''qbo_expenses_list_bills''
      \<or> n = ''qbo_expenses_get_purchase'' \<or> n = ''qbo_expenses_get_bill''"
    unfolding expense_names by simp
  then show ?thesis unfolding \<open>d = ''expenses''\<close> by (elim disjE) simp_all
next
  assume "d = ''payments''"
  with assms(2) have "n \<in> set (map tool_name paymentTools)" by (simp add: descriptor_names)
  then have "n = ''qbo_payments_list'' \<or> n = ''qbo_payments_get'' \<or> n = ''qbo_payments_create''"
    unfolding payment_names by simp
  then show ?thesis unfolding \<open>d = ''payments''\<close> by (elim disjE) simp_all
next
  assume "d = ''reports''"
  with assms(2) have "n \<in> set (map tool_name reportTools)" by (simp add: descriptor_names)
  then have "n = ''qbo_reports_profit_and_loss'' \<or> n = ''qbo_reports_balance_sheet''
      \<or> n = ''qbo_reports_aged_receivables'' \<or> n = ''qbo_reports_aged_payables''
      \<or> n = ''qbo_reports_customer_sales''"
    unfolding report_names by simp
  then show ?thesis unfolding \<open>d = ''reports''\<close> by (elim disjE) simp_all
qed

lemma domain_prefixes_disjoint:
  assumes "d1 \<in> set domains" and "d2 \<in> set domains" and "d1 \<noteq> d2"
  shows "\<not> (prefix (''qbo_'' @ d1 @ ''_'') n \<and> prefix (''qbo_'' @ d2 @ ''_'') n)"
proof
  assume "prefix (''qbo_'' @ d1 @ ''_'') n \<and> prefix (''qbo_'' @ d2 @ ''_'') n"
  then have "prefix (''qbo_'' @ d1 @ ''_'') (''qbo_'' @ d2 @ ''_'')
      \<or> prefix (''qbo_'' @ d2 @ ''_'') (''qbo_'' @ d1 @ ''_'')"
    using prefix_same_cases by blast
  then have p: "prefix (d1 @ ''_'') (d2 @ ''_'') \<or> prefix (d2 @ ''_'') (d1 @ ''_'')"
    by simp
  from domains_cases[OF assms(1)] domains_cases[OF assms(2)] assms(3) p show False
    by (elim disjE) simp_all
qed

lemma back_no_domain_prefix:
  assumes "d \<in> set domains"
  shows "\<not> prefix (''qbo_'' @ d @ ''_'') ''qbo_back''"
  using domains_cases[OF assms] by (elim disjE) simp_all

lemma names_disjoint:
  assumes "d1 \<in> set domains" "d2 \<in> set domains" "d1 \<noteq> d2"
  shows "set (map tool_name (descriptorsOf d1)) \<inter> set (map tool_name ([backTool] @ descriptorsOf d2)) = {}"
proof -
  have b: "tool_name backTool = ''qbo_back''" by (simp add: backTool_def)
  {
    fix n
    assume n1: "n \<in> set (map tool_name (descriptorsOf d1))"
      and n2: "n \<in> set (map tool_name ([backTool] @ descriptorsOf d2))"
    from n1 have p1: "prefix (''qbo_'' @ d1 @ ''_'') n" by (rule descriptor_prefix[OF assms(1)])
    from n2 have "n = ''qbo_back'' \<or> n \<in> set (map tool_name (descriptorsOf d2))"
      by (auto simp: b)
    then have False
    proof
      assume "n = ''qbo_back''"
      with p1 back_no_domain_prefix[OF assms(1)] show False by simp
    next
      assume "n \<in> set (map tool_name (descriptorsOf d2))"
      then have "prefix (''qbo_'' @ d2 @ ''_'') n" by (rule descriptor_prefix[OF assms(2)])
      with p1 domain_prefixes_disjoint[OF assms] show False by blast
    qed
  }
  then show ?thesis by blast
qed

text \<open>
  Claim C5. The listing is a function of the navigation state alone: at the root it is
  exactly the select operation; in a domain it is the back operation followed by that
  domain's descriptors. For domains \<open>d1\<close> and \<open>d2\<close>, after select \<open>d1\<close> and
  then select \<open>d2\<close> the listing is the back operation followed by the descriptors of
  \<open>d2\<close>, and, when the two domains differ, no operation name of \<open>d1\<close> is in it.
\<close>

theorem listing_follows_navigation:
  assumes "d1 \<in> set domains" and "d2 \<in> set domains"
  shows "(currentDomain s = currentDomain s' \<longrightarrow> listTools s = listTools s')
    \<and> (currentDomain s = JNull \<longrightarrow> listTools s = Inr [navigateTool])
    \<and> (currentDomain s = JStr d1 \<longrightarrow> listTools s = Inr ([backTool] @ descriptorsOf d1))
    \<and> listTools (fst (snd (nav_select ext d2 (snd (nav_select ext d1 (s, w)))))) = Inr ([backTool] @ descriptorsOf d2)
    \<and> (d1 \<noteq> d2 \<longrightarrow>
         set (map tool_name (descriptorsOf d1)) \<inter> set (map tool_name ([backTool] @ descriptorsOf d2)) = {})"
proof -
  have pure: "currentDomain s = currentDomain s' \<longrightarrow> listTools s = listTools s'"
    by (simp add: listTools_def)
  have root: "currentDomain s = JNull \<longrightarrow> listTools s = Inr [navigateTool]"
    by (simp add: listTools_def)
  have dom: "currentDomain s = JStr d1 \<longrightarrow> listTools s = Inr ([backTool] @ descriptorsOf d1)"
    using getDomainTools_domains[OF assms(1)] by (simp add: listTools_def)
  obtain r1 s1 w1 where s1: "nav_select ext d1 (s, w) = (r1, s1, w1)"
    by (cases "nav_select ext d1 (s, w)") auto
  have "currentDomain (fst (snd (nav_select ext d2 (s1, w1)))) = JStr d2"
    by (simp add: select_state)
  then have two: "listTools (fst (snd (nav_select ext d2 (snd (nav_select ext d1 (s, w)))))) =
      Inr ([backTool] @ descriptorsOf d2)"
    using getDomainTools_domains[OF assms(2)] by (simp add: s1 listTools_def)
  have disj: "d1 \<noteq> d2 \<longrightarrow>
         set (map tool_name (descriptorsOf d1)) \<inter> set (map tool_name ([backTool] @ descriptorsOf d2)) = {}"
    using names_disjoint[OF assms] by blast
  from pure root dom two disj show ?thesis by blast
qed

text \<open>Select customers, then invoices, from the root.\<close>

theorem listing_follows_navigation_witness:
  "listTools (initial_state None None) = Inr [navigateTool]
   \<and> map tool_name (case listTools (fst (snd (nav_select test_ext ''invoices''
        (snd (nav_select test_ext ''customers'' (initial_state None None, ([], []))))))) of
        Inl e \<Rightarrow> [] | Inr tools \<Rightarrow> tools) =
      [''qbo_back'', ''qbo_invoices_list'', ''qbo_invoices_get'', ''qbo_invoices_create'', ''qbo_invoices_send'']
   \<and> set (map tool_name (descriptorsOf ''customers'')) \<inter>
       set (map tool_name ([backTool] @ descriptorsOf ''invoices'')) = {}"
  using listing_follows_navigation[of "''customers''" "''invoices''" "initial_state None None"
      "initial_state None None" test_ext "([], [])"]
  by (simp add: domains_def initial_state_def descriptor_names invoice_names backTool_def)

text \<open>
  Claim C6. The back operation at the root changes nothing: the state after it is the
  state before it. After a back from any state the state is the root and the listing is
  exactly the select operation; a second back gives the same result, state and listing as
  the first.
\<close>

theorem back_idempotent:
  "(currentDomain s = JNull \<longrightarrow> fst (snd (nav_back ext (s, w))) = s)
   \<and> snd (snd (nav_back ext (s, w))) = w
   \<and> currentDomain (fst (snd (nav_back ext (s, w)))) = JNull
   \<and> listTools (fst (snd (nav_back ext (s, w)))) = Inr [navigateTool]
   \<and> nav_back ext (snd (nav_back ext (s, w))) = nav_back ext (s, w)
   \<and> listTools (fst (snd (nav_back ext (snd (nav_back ext (s, w)))))) = listTools (fst (snd (nav_back ext (s, w))))"
  by (simp add: nav_back_def callTool_def callTool_try_def listTools_def)

text \<open>Back from the root of a fresh process.\<close>

theorem back_idempotent_witness:
  "fst (snd (nav_back test_ext (initial_state None None, ([], [])))) = initial_state None None
   \<and> listTools (fst (snd (nav_back test_ext (initial_state None None, ([], []))))) = Inr [navigateTool]"
  using back_idempotent[of "initial_state None None" test_ext "([], [])"]
  by (simp add: initial_state_def listTools_def)

text \<open>
  Claim C10. The select operation stores its \<open>domain\<close> argument before it looks the
  domain up. For an argument string that is none of the five domain names the call
  returns a failed result (the lookup's \<open>undefined\<close> faults, and the fault is
  caught), the navigation state is that string afterwards, and the next listing faults
  instead of returning a list.
\<close>

theorem navigate_unknown_domain:
  assumes "d \<notin> set domains" and "arg args ''domain'' = JStr d"
  shows "callTool ext ''qbo_navigate'' args (s, w) =
      (failed_result (''Error: Cannot read properties of undefined (reading '' @ quoted ''map'' @ '')''),
       s\<lparr>currentDomain := JStr d\<rparr>, w)
    \<and> isError (fst (callTool ext ''qbo_navigate'' args (s, w))) = Some True
    \<and> currentDomain (fst (snd (callTool ext ''qbo_navigate'' args (s, w)))) = JStr d
    \<and> listTools (fst (snd (callTool ext ''qbo_navigate'' args (s, w)))) =
        Inl (ErrorObject ''TypeError'' ''Spread syntax requires ...iterable[Symbol.iterator] to be a function'')"
proof -
  from assms(2) have a: "args \<noteq> JUndefined" "args \<noteq> JNull"
    by (auto simp: arg_def)
  have call: "callTool ext ''qbo_navigate'' args (s, w) =
      (failed_result (''Error: Cannot read properties of undefined (reading '' @ quoted ''map'' @ '')''),
       s\<lparr>currentDomain := JStr d\<rparr>, w)"
    using a assms(2) getDomainTools_not_domain[OF assms(1)]
    by (simp add: callTool_def callTool_try_def)
  have lst: "listTools (s\<lparr>currentDomain := JStr d\<rparr>) =
      Inl (ErrorObject ''TypeError'' ''Spread syntax requires ...iterable[Symbol.iterator] to be a function'')"
    using getDomainTools_not_domain[OF assms(1)] by (simp add: listTools_def)
  show ?thesis
    unfolding call using lst by (simp add: failed_result_def)
qed

text \<open>Select \<open>vendors\<close> from the root.\<close>

theorem navigate_unknown_domain_witness:
  "callTool test_ext ''qbo_navigate'' (JObj [(''domain'', JStr ''vendors'')]) (initial_state None None, ([], [])) =
      (failed_result ''Error: Cannot read properties of undefined (reading 'map')'',
       (initial_state None None)\<lparr>currentDomain := JStr ''vendors''\<rparr>, ([], []))
    \<and> listTools (fst (snd (callTool test_ext ''qbo_navigate'' (JObj [(''domain'', JStr ''vendors'')])
          (initial_state None None, ([], []))))) =
        Inl (ErrorObject ''TypeError'' ''Spread syntax requires ...iterable[Symbol.iterator] to be a function'')"
proof -
  have a: "''vendors'' \<notin> set domains" by (simp add: domains_def)
  have b: "arg (JObj [(''domain'', JStr ''vendors'')]) ''domain'' = JStr ''vendors''"
    by (simp add: arg_def)
  from navigate_unknown_domain[OF a b, of test_ext "initial_state None None" "([], [])"]
  show ?thesis
    unfolding quoted_def by auto
qed

section \<open>The tool router\<close>

text \<open>
  Claim C7. A call whose name is neither navigation operation and starts with none of the
  five domain prefixes returns the unknown-tool result, marked failed, and changes
  nothing. Whatever the body of the dispatch throws is caught and turned into a failed
  result whose text is \<open>Error: \<close> followed by the error's message; what the body
  returns is passed on. So every call returns a structured result.
\<close>

theorem callTool_structured_result:
  "(name \<noteq> ''qbo_navigate'' \<and> name \<noteq> ''qbo_back''
      \<and> (\<forall>d \<in> set domains. \<not> prefix (''qbo_'' @ d @ ''_'') name) \<longrightarrow>
    callTool ext name args sw =
      (failed_result (''Unknown tool: '' @ name @ ''. Use qbo_navigate to select a domain first.''), sw))
   \<and> (callTool_try ext name args sw = (Inl e, sw') \<longrightarrow>
    callTool ext name args sw = (failed_result (''Error: '' @ error_message e), sw'))
   \<and> (callTool_try ext name args sw = (Inr r, sw') \<longrightarrow> callTool ext name args sw = (r, sw'))
   \<and> isError (failed_result t) = Some True"
proof -
  have unknown: "name \<noteq> ''qbo_navigate'' \<and> name \<noteq> ''qbo_back''
      \<and> (\<forall>d \<in> set domains. \<not> prefix (''qbo_'' @ d @ ''_'') name) \<longrightarrow>
    callTool ext name args sw =
      (failed_result (''Unknown tool: '' @ name @ ''. Use qbo_navigate to select a domain first.''), sw)"
    by (cases sw) (simp add: callTool_def callTool_try_def domains_def)
  have caught: "callTool_try ext name args sw = (Inl e, sw') \<longrightarrow>
    callTool ext name args sw = (failed_result (''Error: '' @ error_message e), sw')"
    by (simp add: callTool_def)
  have passed: "callTool_try ext name args sw = (Inr r, sw') \<longrightarrow> callTool ext name args sw = (r, sw')"
    by (simp add: callTool_def)
  have failed: "isError (failed_result t) = Some True"
    by (simp add: failed_result_def)
  from unknown caught passed failed show ?thesis by blast
qed

lemma customers_list_no_credentials:
  "callTool_try test_ext ''qbo_customers_list'' (JObj []) (initial_state None None, ([], [])) =
     (Inl (ErrorObject ''Error''
        (''QBO_ACCESS_TOKEN and QBO_REALM_ID environment variables are required. '' @
         ''Provide a pre-authenticated OAuth2 access token and company realm ID.'')),
      initial_state None None, ([], []))"
  by (simp add: callTool_try_def handleCustomerTool_def getClient_def initial_state_def toolArgs_def)

text \<open>
  An unknown name, and a domain operation in a process with no credentials, where
  \<open>getClient\<close> throws inside the handler.
\<close>

theorem callTool_structured_result_witness:
  "callTool test_ext ''qbo_vendors_list'' JUndefined (initial_state None None, ([], [])) =
     (failed_result ''Unknown tool: qbo_vendors_list. Use qbo_navigate to select a domain first.'',
      initial_state None None, ([], []))
   \<and> callTool test_ext ''qbo_customers_list'' (JObj []) (initial_state None None, ([], [])) =
     (failed_result ''Error: QBO_ACCESS_TOKEN and QBO_REALM_ID environment variables are required. Provide a pre-authenticated OAuth2 access token and company realm ID.'',
      initial_state None None, ([], []))"
proof -
  have pre: "''qbo_vendors_list'' \<noteq> ''qbo_navigate'' \<and> ''qbo_vendors_list'' \<noteq> ''qbo_back''
      \<and> (\<forall>d \<in> set domains. \<not> prefix (''qbo_'' @ d @ ''_'') ''qbo_vendors_list'')"
    by (simp add: domains_def)
  from callTool_structured_result[of "''qbo_vendors_list''" test_ext JUndefined
      "(initial_state None None, ([], []))"] pre
  have a: "callTool test_ext ''qbo_vendors_list'' JUndefined (initial_state None None, ([], [])) =
     (failed_result (''Unknown tool: '' @ ''qbo_vendors_list'' @ ''. Use qbo_navigate to select a domain first.''),
      initial_state None None, ([], []))"
    by blast
  from callTool_structured_result[of "''qbo_customers_list''" test_ext "JObj []"
      "(initial_state None None, ([], []))"] customers_list_no_credentials
  have b: "callTool test_ext ''qbo_customers_list'' (JObj []) (initial_state None None, ([], [])) =
     (failed_result (''Error: '' @ error_message (ErrorObject ''Error''
        (''QBO_ACCESS_TOKEN and QBO_REALM_ID environment variables are required. '' @
         ''Provide a pre-authenticated OAuth2 access token and company realm ID.''))),
      initial_state None None, ([], []))"
    by blast
  from a b show ?thesis by simp
qed

section \<open>The invoice list filter\<close>

text \<open>
  Claim C9. With \<open>status\<close> = \<open>Overdue\<close> the first condition of
  \<open>qbo_invoices_list\<close> is the positive-balance test and the due-date-before-today
  test joined by \<open>AND\<close>. A start or end date is rendered as the field, the
  operator and the value between single quotes, the value copied as it is. The conditions
  are joined with \<open>AND\<close> after \<open>WHERE\<close>, and this SQL is what the handler
  sends upstream.
\<close>

theorem invoices_list_filter:
  "(arg args ''status'' = JStr ''Overdue'' \<longrightarrow>
      invoice_list_conditions today args =
        (''Balance > '' @ quoted ''0'' @ '' AND DueDate < '' @ quoted today) # date_conditions args)
   \<and> (arg args ''startDate'' = JStr v \<and> v \<noteq> [] \<longrightarrow> ''TxnDate >= '' @ quoted v \<in> set (date_conditions args))
   \<and> (arg args ''endDate'' = JStr v \<and> v \<noteq> [] \<longrightarrow> ''TxnDate <= '' @ quoted v \<in> set (date_conditions args))
   \<and> quoted v = [CHR 0x27] @ v @ [CHR 0x27]
   \<and> (conditions \<noteq> [] \<longrightarrow>
        list_sql ''Invoice'' conditions args =
          ''SELECT * FROM Invoice WHERE '' @ join '' AND '' conditions @
          '' STARTPOSITION '' @ to_string (arg_default args ''startPosition'' (JNum 1)) @
          '' MAXRESULTS '' @ to_string (arg_default args ''maxResults'' (JNum 100)))
   \<and> (getClient s = (Inr c, s') \<longrightarrow>
        handleInvoiceTool ext ''qbo_invoices_list'' args (s, w) =
          respond ext s' (query (ext_fetch ext) c
            (list_sql ''Invoice'' (invoice_list_conditions (ext_today ext w) args) args) w))"
proof -
  have overdue: "arg args ''status'' = JStr ''Overdue'' \<longrightarrow>
      invoice_list_conditions today args =
        (''Balance > '' @ quoted ''0'' @ '' AND DueDate < '' @ quoted today) # date_conditions args"
    by (simp add: invoice_list_conditions_def)
  have start: "arg args ''startDate'' = JStr v \<and> v \<noteq> [] \<longrightarrow>
      ''TxnDate >= '' @ quoted v \<in> set (date_conditions args)"
    by (simp add: date_conditions_def)
  have end_date: "arg args ''endDate'' = JStr v \<and> v \<noteq> [] \<longrightarrow>
      ''TxnDate <= '' @ quoted v \<in> set (date_conditions args)"
    by (simp add: date_conditions_def)
  have literal: "quoted v = [CHR 0x27] @ v @ [CHR 0x27]"
    by (simp add: quoted_def)
  have sql: "conditions \<noteq> [] \<longrightarrow>
        list_sql ''Invoice'' conditions args =
          ''SELECT * FROM Invoice WHERE '' @ join '' AND '' conditions @
          '' STARTPOSITION '' @ to_string (arg_default args ''startPosition'' (JNum 1)) @
          '' MAXRESULTS '' @ to_string (arg_default args ''maxResults'' (JNum 100))"
    by (simp add: list_sql_def)
  have handler: "getClient s = (Inr c, s') \<longrightarrow>
        handleInvoiceTool ext ''qbo_invoices_list'' args (s, w) =
          respond ext s' (query (ext_fetch ext) c
            (list_sql ''Invoice'' (invoice_list_conditions (ext_today ext w) args) args) w)"
    by (simp add: handleInvoiceTool_def)
  from overdue start end_date literal sql handler show ?thesis by blast
qed

lemma getClient_test_state:
  "getClient test_state = (Inr test_client, test_state\<lparr>client := Some test_client\<rparr>)"
  by (simp add: getClient_def test_state_def initial_state_def test_client_def Let_def)

lemma show_int_100: "show_int 100 = ''100''"
  by (simp add: show_int_def show_nat.simps digit_char_def)

text \<open>An overdue filter whose start date carries quote characters.\<close>

theorem invoices_list_filter_witness:
  "list_sql ''Invoice'' (invoice_list_conditions ''2026-11-03'' overdue_args) overdue_args =
     ''SELECT * FROM Invoice WHERE Balance > '0' AND DueDate < '2026-11-03' AND TxnDate >= '2026-01-01' OR '1'='1' STARTPOSITION 1 MAXRESULTS 100''
   \<and> map req_body (snd (snd (snd (handleInvoiceTool test_ext ''qbo_invoices_list'' overdue_args
        (test_state, ([page []], [])))))) =
     [Some (JStr ''SELECT * FROM Invoice WHERE Balance > '0' AND DueDate < '2026-11-03' AND TxnDate >= '2026-01-01' OR '1'='1' STARTPOSITION 1 MAXRESULTS 100'')]"
proof -
  let ?v = "''2026-01-01' OR '1'='1''"
  let ?conds = "invoice_list_conditions ''2026-11-03'' overdue_args"
  note t = invoices_list_filter[of overdue_args "''2026-11-03''" ?v ?conds test_state test_client
      "test_state\<lparr>client := Some test_client\<rparr>" test_ext "([page []], [])"]
  have status: "arg overdue_args ''status'' = JStr ''Overdue''"
    by (simp add: overdue_args_def arg_def)
  have start: "arg overdue_args ''startDate'' = JStr ?v" "arg overdue_args ''endDate'' = JUndefined"
    by (simp_all add: overdue_args_def arg_def)
  from t status have conds: "?conds =
      (''Balance > '' @ quoted ''0'' @ '' AND DueDate < '' @ quoted ''2026-11-03'') # date_conditions overdue_args"
    by blast
  have dates: "date_conditions overdue_args = [''TxnDate >= '' @ quoted ?v]"
    by (simp add: date_conditions_def start)
  have ne: "?conds \<noteq> []" unfolding conds by simp
  from t ne have sql: "list_sql ''Invoice'' ?conds overdue_args =
          ''SELECT * FROM Invoice WHERE '' @ join '' AND '' ?conds @
          '' STARTPOSITION '' @ to_string (arg_default overdue_args ''startPosition'' (JNum 1)) @
          '' MAXRESULTS '' @ to_string (arg_default overdue_args ''maxResults'' (JNum 100))"
    by blast
  have page_args: "arg_default overdue_args ''startPosition'' (JNum 1) = JNum 1"
      "arg_default overdue_args ''maxResults'' (JNum 100) = JNum 100"
    by (simp_all add: arg_default_def arg_def overdue_args_def)
  have sql_text: "list_sql ''Invoice'' ?conds overdue_args =
     ''SELECT * FROM Invoice WHERE Balance > '0' AND DueDate < '2026-11-03' AND TxnDate >= '2026-01-01' OR '1'='1' STARTPOSITION 1 MAXRESULTS 100''"
    using sql by (simp add: conds dates page_args quoted_def show_int_1 show_int_100)
  from t getClient_test_state
  have h: "handleInvoiceTool test_ext ''qbo_invoices_list'' overdue_args (test_state, ([page []], [])) =
          respond test_ext (test_state\<lparr>client := Some test_client\<rparr>) (query (ext_fetch test_ext) test_client
            (list_sql ''Invoice'' (invoice_list_conditions (ext_today test_ext ([page []], [])) overdue_args)
               overdue_args) ([page []], []))"
    by blast
  have today: "ext_today test_ext ([page []], []) = ''2026-11-03''"
    by (simp add: test_ext_def)
  have log: "map req_body (snd (snd (snd (handleInvoiceTool test_ext ''qbo_invoices_list'' overdue_args
        (test_state, ([page []], [])))))) =
     [Some (JStr (list_sql ''Invoice'' ?conds overdue_args))]"
    unfolding h today
    by (simp add: respond_def query_def request_def test_ext_def mock_fetch_def page_def resp_ok_def
          build_request_def)
  from sql_text log show ?thesis by simp
qed

section \<open>The HTTP transport in gateway mode\<close>

text \<open>
  Claim C4, as the code has it. In gateway mode a request to the protocol endpoint with
  either credential header missing (or empty) is answered with status 401 and a fixed
  body that lists both required headers, whichever is missing. The request is not handed
  to the transport: no handler runs, the state of the server and of the outside world is
  unchanged, so no upstream call is made.
\<close>

theorem missing_credentials_reply:
  "(in_pathname req = ''/mcp''
      \<and> (falsy_string (map_of (in_headers req) ''x-qbo-access-token'')
          \<or> falsy_string (map_of (in_headers req) ''x-qbo-realm-id'')) \<longrightarrow>
    serve ext now True req msg (s, w) = (HttpOut (Reply 401 missing_credentials_body), s, w))
   \<and> get_prop missing_credentials_body ''required'' =
       Inr (JArr [JStr ''X-Qbo-Access-Token'', JStr ''X-Qbo-Realm-Id''])"
  by (simp add: serve_def http_callback_def missing_credentials_body_def)

text \<open>A request with the realm header only.\<close>

theorem missing_credentials_reply_witness:
  "serve test_ext ''2026-11-03T10:00:00.000Z'' True
     \<lparr>in_pathname = ''/mcp'', in_headers = [(''x-qbo-realm-id'', ''1001'')]\<rparr>
     (CallToolRequest ''qbo_customers_list'' (JObj [])) (test_state, ([page []], [])) =
   (HttpOut (Reply 401 missing_credentials_body), test_state, ([page []], []))"
  using missing_credentials_reply[of "\<lparr>in_pathname = ''/mcp'', in_headers = [(''x-qbo-realm-id'', ''1001'')]\<rparr>"
      test_ext "''2026-11-03T10:00:00.000Z''" "CallToolRequest ''qbo_customers_list'' (JObj [])"
      test_state "([page []], [])"]
  by simp

text \<open>
  Claim C4 as stated fails: a request missing only the access token and a request missing
  only the realm id get the same reply, which lists both headers as required; it does not
  say which one is missing.
\<close>

theorem missing_header_not_named_counterexample:
  "fst (http_callback ''2026-11-03T10:00:00.000Z'' True
          \<lparr>in_pathname = ''/mcp'', in_headers = [(''x-qbo-realm-id'', ''1001'')]\<rparr> test_state) =
     Reply 401
       (JObj [(''error'', JStr ''Missing credentials''),
              (''message'', JStr ''Gateway mode requires X-Qbo-Access-Token and X-Qbo-Realm-Id headers''),
              (''required'', JArr [JStr ''X-Qbo-Access-Token'', JStr ''X-Qbo-Realm-Id''])])
   \<and> fst (http_callback ''2026-11-03T10:00:00.000Z'' True
          \<lparr>in_pathname = ''/mcp'', in_headers = [(''x-qbo-access-token'', ''token-A'')]\<rparr> test_state) =
     Reply 401
       (JObj [(''error'', JStr ''Missing credentials''),
              (''message'', JStr ''Gateway mode requires X-Qbo-Access-Token and X-Qbo-Realm-Id headers''),
              (''required'', JArr [JStr ''X-Qbo-Access-Token'', JStr ''X-Qbo-Realm-Id''])])"
  by (simp add: http_callback_def missing_credentials_body_def)

text \<open>
  For comparison, the same two calls with no other request in between callback and
  handler: each upstream request carries the credentials of its own headers.
\<close>

lemma sequential_calls_keep_credentials:
  "map (\<lambda>r. (map_of (req_headers r) ''Authorization'', req_url r))
     (snd (snd (snd (run_events test_ext ''2026-11-03T10:00:00.000Z'' True
        [Arrive request_A,
         Dispatch (CallToolRequest ''qbo_customers_get'' (JObj [(''customerId'', JStr ''7'')])),
         Arrive request_B,
         Dispatch (CallToolRequest ''qbo_customers_get'' (JObj [(''customerId'', JStr ''8'')]))]
        (initial_state None None, ([page [], page []], [])))))) =
   [(Some ''Bearer token-A'', ''https://quickbooks.api.intuit.com/v3/company/1001/customer/7''),
    (Some ''Bearer token-B'', ''https://quickbooks.api.intuit.com/v3/company/2002/customer/8'')]"
  by (simp add: run_event_def http_callback_def request_A_def request_B_def initial_state_def
        resetClient_def handle_message_def callTool_def callTool_try_def toolArgs_def
        handleCustomerTool_def getClient_def new_QboClient_def QBO_API_BASE_def respond_def
        get_def request_def test_ext_def mock_fetch_def page_def resp_ok_def build_request_def arg_def
        Let_def)

text \<open>
  Claim C1, at a failing run. Two requests of different tenants arrive one after the
  other, and the callback hands both to the transport; then the handler of the first
  request's call runs. \<open>resetClient\<close> and the two environment variables are
  process-wide, so the client the handler builds holds the second request's credentials:
  the first call's upstream request carries the second tenant's token and realm.
\<close>

theorem interleaved_calls_share_credentials:
  "take 2 (fst (run_events test_ext ''2026-11-03T10:00:00.000Z'' True
        [Arrive request_A, Arrive request_B,
         Dispatch (CallToolRequest ''qbo_customers_get'' (JObj [(''customerId'', JStr ''7'')]))]
        (initial_state None None, ([page []], [])))) =
   [HttpOut HandleRequest, HttpOut HandleRequest]
   \<and> map (\<lambda>r. (map_of (req_headers r) ''Authorization'', req_url r))
     (snd (snd (snd (run_events test_ext ''2026-11-03T10:00:00.000Z'' True
        [Arrive request_A, Arrive request_B,
         Dispatch (CallToolRequest ''qbo_customers_get'' (JObj [(''customerId'', JStr ''7'')]))]
        (initial_state None None, ([page []], [])))))) =
   [(Some ''Bearer token-B'', ''https://quickbooks.api.intuit.com/v3/company/2002/customer/7'')]"
  by (simp add: run_event_def http_callback_def request_A_def request_B_def initial_state_def
        resetClient_def handle_message_def callTool_def callTool_try_def toolArgs_def
        handleCustomerTool_def getClient_def new_QboClient_def QBO_API_BASE_def respond_def
        get_def request_def test_ext_def mock_fetch_def page_def resp_ok_def build_request_def arg_def
        Let_def)

end
